theory Spec2Isabelle
  imports Complex_Main "HOL-Library.Word"
begin

unbundle bit_operations_syntax

chapter \<open>The AkaDako board session layer (akadako-board.js)\<close>

text \<open>
  A shallow embedding of \<^verbatim>\<open>src/vm/extensions/block/akadako-board.js\<close>: the two
  helpers at the top of the file (the 7-bit decoder and the gamma table), the board
  object with the Firmata object it drives, and the operations on them.  The first part
  holds the model, the second part the properties.
\<close>

section \<open>JavaScript numbers\<close>

text \<open>
  The numbers the code computes with are integers, except where \<^verbatim>\<open>%\<close> divides by
  zero or an array is read out of range: both give a value that behaves as \<^verbatim>\<open>NaN\<close>
  in every later operation of this file (\<^verbatim>\<open>undefined\<close> under \<^verbatim>\<open>+\<close> is
  \<^verbatim>\<open>NaN\<close>, and under a bitwise operator it is 0, as \<^verbatim>\<open>NaN\<close> is).
\<close>

datatype jsnum = NaN | Num int

text \<open>\<^verbatim>\<open>ToInt32\<close>, which every bitwise operator applies to its operands.\<close>

fun toInt32 :: "jsnum \<Rightarrow> 32 word" where
  "toInt32 NaN = 0"
| "toInt32 (Num i) = word_of_int i"

fun js_add :: "jsnum \<Rightarrow> jsnum \<Rightarrow> jsnum" where
  "js_add (Num a) (Num b) = Num (a + b)"
| "js_add _ _ = NaN"

text \<open>\<^verbatim>\<open>a % b\<close>: the remainder has the sign of the dividend; by zero it is \<^verbatim>\<open>NaN\<close>.\<close>

fun js_rem :: "jsnum \<Rightarrow> jsnum \<Rightarrow> jsnum" where
  "js_rem (Num a) (Num b) = (if b = 0 then NaN else Num (sgn a * (\<bar>a\<bar> mod \<bar>b\<bar>)))"
| "js_rem _ _ = NaN"

text \<open>\<^verbatim>\<open>Math.max\<close>: \<^verbatim>\<open>NaN\<close> if an argument is.\<close>

fun js_max :: "jsnum \<Rightarrow> jsnum \<Rightarrow> jsnum" where
  "js_max (Num a) (Num b) = Num (max a b)"
| "js_max _ _ = NaN"

text \<open>
  The bitwise operators \<^verbatim>\<open>&\<close>, \<^verbatim>\<open>|\<close>, \<^verbatim>\<open><<\<close> and \<^verbatim>\<open>>>\<close>: on the
  operands as 32-bit integers, with a signed 32-bit result.
\<close>

definition js_and :: "jsnum \<Rightarrow> jsnum \<Rightarrow> int" where
  "js_and a b = sint (toInt32 a AND toInt32 b)"

definition js_or :: "jsnum \<Rightarrow> jsnum \<Rightarrow> int" where
  "js_or a b = sint (toInt32 a OR toInt32 b)"

definition js_shl :: "jsnum \<Rightarrow> nat \<Rightarrow> int" where
  "js_shl a n = sint (push_bit n (toInt32 a))"

definition js_shr :: "jsnum \<Rightarrow> nat \<Rightarrow> int" where
  "js_shr a n = sint (signed_drop_bit n (toInt32 a))"

text \<open>Reading an array of numbers at an index: \<^verbatim>\<open>undefined\<close> out of range.\<close>

definition js_nth :: "int list \<Rightarrow> nat \<Rightarrow> jsnum" where
  "js_nth xs i = (if i < length xs then Num (xs ! i) else NaN)"

section \<open>decodeInt16FromTwo7bitBytes\<close>

text \<open>
  \<^verbatim>\<open>
  const decodeInt16FromTwo7bitBytes = bytes => {
      const lsb = (bytes[0] | (bytes[1] << 7)) & 0xFF;
      const msb = ((bytes[1] >> 1) | ((bytes[1] >> 6) ? 0b11000000 : 0));
      const dataView = new DataView((new Uint8Array([lsb, msb])).buffer);
      const result = dataView.getInt16(0, true);
      return result;
  };
  \<close>
  The payload is an array of numbers.  The bitwise operators work on 32-bit integers,
  the \<^verbatim>\<open>Uint8Array\<close> keeps the low eight bits of each of \<^verbatim>\<open>lsb\<close> and
  \<^verbatim>\<open>msb\<close>, and \<^verbatim>\<open>getInt16(0, true)\<close> reads them as a little-endian signed
  16-bit integer.
\<close>

definition byteAt :: "nat list \<Rightarrow> nat \<Rightarrow> 32 word" where
  "byteAt bytes i = toInt32 (js_nth (map int bytes) i)"

definition decodeInt16FromTwo7bitBytes :: "nat list \<Rightarrow> int" where
  "decodeInt16FromTwo7bitBytes bytes =
    (let b0 = byteAt bytes 0;
         b1 = byteAt bytes 1;
         lsb = (b0 OR push_bit 7 b1) AND 0xFF;
         msb = signed_drop_bit 1 b1 OR (if signed_drop_bit 6 b1 \<noteq> 0 then 0xC0 else 0);
         lo = (ucast lsb :: 8 word);
         hi = (ucast msb :: 8 word)
     in sint (word_cat hi lo :: 16 word))"

section \<open>neoPixelGammaTable and neoPixelColorValue\<close>

text \<open>
  \<^verbatim>\<open>
  const neoPixelGammaTable = ((steps, gamma) => {
      const gammaTable = new Array(steps);
      for (let i = 0; i < steps; i++) {
          gammaTable[i] = Math.floor((Math.pow((i / 255.0), gamma) * 255) + 0.5);
      }
      return gammaTable;
  })(256, 2.8);
  \<close>
  \<^verbatim>\<open>Math.pow\<close> is read as the power function of the real numbers: the table is the
  one an exact evaluation of the expression gives.  No entry is closer than 1/2000 to
  the point where it would round the other way: an evaluation whose error is below
  1/2000 gives the same table (\<open>gamma_robust\<close> below).
\<close>

definition gammaTableOf :: "nat \<Rightarrow> real \<Rightarrow> int list" where
  "gammaTableOf steps gamma =
     map (\<lambda>i. \<lfloor>(real i / 255.0) powr gamma * 255 + 0.5\<rfloor>) [0..<steps]"

definition neoPixelGammaTable :: "int list" where
  "neoPixelGammaTable = gammaTableOf 256 2.8"

text \<open>The 256 entries, written out.\<close>

definition gammaLiteral :: "int list" where
  "gammaLiteral =
   [0, 0, 0, 0, 0, 0, 0, 0, 0, 0, 0, 0, 0, 0, 0, 0,
    0, 0, 0, 0, 0, 0, 0, 0, 0, 0, 0, 0, 1, 1, 1, 1,
    1, 1, 1, 1, 1, 1, 1, 1, 1, 2, 2, 2, 2, 2, 2, 2,
    2, 3, 3, 3, 3, 3, 3, 3, 4, 4, 4, 4, 4, 5, 5, 5,
    5, 6, 6, 6, 6, 7, 7, 7, 7, 8, 8, 8, 9, 9, 9, 10,
    10, 10, 11, 11, 11, 12, 12, 13, 13, 13, 14, 14, 15, 15, 16, 16,
    17, 17, 18, 18, 19, 19, 20, 20, 21, 21, 22, 22, 23, 24, 24, 25,
    25, 26, 27, 27, 28, 29, 29, 30, 31, 32, 32, 33, 34, 35, 35, 36,
    37, 38, 39, 39, 40, 41, 42, 43, 44, 45, 46, 47, 48, 49, 50, 50,
    51, 52, 54, 55, 56, 57, 58, 59, 60, 61, 62, 63, 64, 66, 67, 68,
    69, 70, 72, 73, 74, 75, 77, 78, 79, 81, 82, 83, 85, 86, 87, 89,
    90, 92, 93, 95, 96, 98, 99, 101, 102, 104, 105, 107, 109, 110, 112, 114,
    115, 117, 119, 120, 122, 124, 126, 127, 129, 131, 133, 135, 137, 138, 140, 142,
    144, 146, 148, 150, 152, 154, 156, 158, 160, 162, 164, 167, 169, 171, 173, 175,
    177, 180, 182, 184, 186, 189, 191, 193, 196, 198, 200, 203, 205, 208, 210, 213,
    215, 218, 220, 223, 225, 228, 231, 233, 236, 239, 241, 244, 247, 249, 252, 255]"

text \<open>
  The test that \<open>k \<ge> 0\<close> is entry \<open>v\<close>, with a margin:
  \<open>k - 999/2000 \<le> 255 (v/255)\<^bsup>14/5\<^esup> \<le> k + 999/2000\<close>, with both sides raised
  to the fifth power and the denominators cleared.
\<close>

definition gammaEntryOk :: "nat \<Rightarrow> int \<Rightarrow> bool" where
  "gammaEntryOk v k \<longleftrightarrow>
     0 \<le> k \<and>
     (2000 * k - 999) ^ 5 * 255 ^ 9 \<le> 2000 ^ 5 * int v ^ 14 \<and>
     2000 ^ 5 * int v ^ 14 \<le> (2000 * k + 999) ^ 5 * 255 ^ 9"

text \<open>
  \<^verbatim>\<open>
  const neoPixelColorValue = (colors, gammaTable) => {
      const gammaCorrectedColor = Object.assign({}, colors);
      gammaCorrectedColor[0] = gammaTable[gammaCorrectedColor[0]];
      gammaCorrectedColor[1] = gammaTable[gammaCorrectedColor[1]];
      gammaCorrectedColor[2] = gammaTable[gammaCorrectedColor[2]];
      return (
          (gammaCorrectedColor[0] << 16) +
          (gammaCorrectedColor[1] << 8) +
          (gammaCorrectedColor[2])
      );
  };
  \<close>
  A color is the array \<^verbatim>\<open>[r, g, b]\<close>.
\<close>

type_synonym rgb = "nat \<times> nat \<times> nat"

definition neoPixelColorValue :: "rgb \<Rightarrow> int list \<Rightarrow> jsnum" where
  "neoPixelColorValue colors gammaTable =
    (case colors of (r, g, b) \<Rightarrow>
       let c0 = js_nth gammaTable r;
           c1 = js_nth gammaTable g;
           c2 = js_nth gammaTable b
       in js_add (js_add (Num (js_shl c0 16)) (Num (js_shl c1 8))) c2)"

section \<open>The board and the Firmata object\<close>

text \<open>
  The board talks to the device through a Firmata object of the library
  \<^verbatim>\<open>firmata-io\<close>.  Of that object the model keeps what the board code reads: the
  live pin table (\<^verbatim>\<open>firmata.pins[pin].mode\<close> and \<^verbatim>\<open>.value\<close>), the mode
  constants \<^verbatim>\<open>firmata.MODES\<close>, the transport with its \<^verbatim>\<open>isOpen\<close> flag, and the
  one-shot listeners registered with \<^verbatim>\<open>firmata.once\<close>.  Every call the board makes
  on the library, and every event the board itself emits, is appended to one log of
  effects, in the order the code makes them.
\<close>

type_synonym device = "nat list"

datatype reason =
    TypeError            \<comment> \<open>a property read on \<^verbatim>\<open>null\<close> or \<^verbatim>\<open>undefined\<close>\<close>
  | NoDevice             \<comment> \<open>\<^verbatim>\<open>new Error('no device')\<close>\<close>
  | NotAvailable         \<comment> \<open>\<^verbatim>\<open>'not available'\<close>\<close>
  | Timeout nat          \<comment> \<open>\<^verbatim>\<open>`timeout ${delay}ms`\<close>\<close>
  | LibraryError string  \<comment> \<open>an error the library passes to a callback\<close>

datatype 'a promise = Pending | Resolved 'a | Rejected reason

record pin_entry =
  pin_mode :: "int option"
  pin_value :: nat

record modes =
  INPUT :: int
  OUTPUT :: int
  ANALOG :: int
  PULLUP :: int
  ONEWIRE :: int
  PING_READ :: int

record transport =
  isOpen :: bool

text \<open>
  The event names are the strings \<^verbatim>\<open>`board-version-reply`\<close>,
  \<^verbatim>\<open>`ultrasonic-distance-reply-${pin}`\<close> and \<^verbatim>\<open>`water-temp-reply-${pin}`\<close>.
  A listener is the closure given to \<^verbatim>\<open>firmata.once\<close>; it is named by the kind
  of query that made it and the number of that query, whose \<^verbatim>\<open>request\<close> promise it
  settles.
\<close>

datatype event = BoardVersionReply | UltrasonicDistanceReply nat | WaterTempReply nat

datatype listener = OnBoardVersion nat | OnSensor nat

record firmata =
  pins :: "pin_entry list"
  MODES :: modes
  transport :: "transport option"
  listeners :: "(event \<times> listener) list"

datatype effect =
    PinMode nat int                                \<comment> \<open>\<^verbatim>\<open>firmata.pinMode(pin, mode)\<close>\<close>
  | DigitalWrite nat nat bool                      \<comment> \<open>\<^verbatim>\<open>firmata.digitalWrite(pin, value, enqueue)\<close>\<close>
  | SysexCommand "int list"                        \<comment> \<open>\<^verbatim>\<open>firmata.sysexCommand(message)\<close>\<close>
  | SendOneWireConfig nat bool
  | SendOneWireSearch nat
  | SendOneWireDelay nat nat
  | SendOneWireRead nat "device option" nat
  | SendOneWireWrite nat "device option" "nat list"
  | SendOneWireWriteAndRead nat "device option" "nat list" nat
  | FirmataReset                                   \<comment> \<open>\<^verbatim>\<open>firmata.reset()\<close>\<close>
  | TransportClose                                 \<comment> \<open>\<^verbatim>\<open>transport.close()\<close>\<close>
  | RemoveAllListeners                             \<comment> \<open>\<^verbatim>\<open>firmata.removeAllListeners()\<close>\<close>
  | RuntimeEmitConnectionLost "string option"      \<comment> \<open>the runtime's connection-lost event\<close>
  | ConsoleError string
  | Emit string                                    \<comment> \<open>\<^verbatim>\<open>this.emit(name)\<close>\<close>

record version =
  vtype :: int
  major :: int
  minor :: int

datatype board_state = Disconnect | PortRequesting | Connect | Ready

datatype slot = Undefined | Null | Color rgb

record strip =
  strip_pin :: nat
  strip_length :: nat
  strip_colors :: "slot list option"

datatype qvalue = VersionString version | SensorValue int

record query =
  q_event :: event
  q_delay :: nat
  q_request :: "qvalue promise"
  q_result :: "qvalue promise"

text \<open>
  The fields of \<^verbatim>\<open>AkaDakoBoard\<close>.  \<^verbatim>\<open>this.transport\<close> and
  \<^verbatim>\<open>this.oneWireDevices\<close> are not set by the constructor: they start undefined.
  \<open>queries\<close> holds the promises of the queries made so far and \<open>effects\<close> the log.
\<close>

record board =
  version :: "version option"
  state :: board_state
  firmata :: "firmata option"
  board_transport :: "transport option"
  extensionId :: "string option"
  sendingInterval :: nat
  oneWireReadWaitingTime :: nat
  boardVersionWaitingTime :: nat
  ultrasonicDistanceWaitingTime :: nat
  getWaterTempWaitingTime :: nat
  neoPixel :: "strip list"
  defaultNeoPixelLength :: nat
  oneWireDevices :: "device list option"
  queries :: "query list"
  effects :: "effect list"

text \<open>The board the constructor makes.\<close>

definition constructor :: board where
  "constructor =
     \<lparr> version = None, state = Disconnect, firmata = None, board_transport = None,
       extensionId = None, sendingInterval = 10, oneWireReadWaitingTime = 100,
       boardVersionWaitingTime = 200,
       ultrasonicDistanceWaitingTime = 1000, getWaterTempWaitingTime = 2000,
       neoPixel = [], defaultNeoPixelLength = 3, oneWireDevices = None,
       queries = [], effects = [] \<rparr>"

definition log :: "effect \<Rightarrow> board \<Rightarrow> board" where
  "log e b = b\<lparr>effects := effects b @ [e]\<rparr>"

text \<open>
  The library's \<^verbatim>\<open>firmata.pinMode(pin, mode)\<close> records the mode in the pin table
  and sends it; \<^verbatim>\<open>firmata.digitalWrite(pin, value, enqueue)\<close> records the value
  and sends the port (or queues it, when \<^verbatim>\<open>enqueue\<close> is set).  The board code
  relies on both records: it reads them back in \<^verbatim>\<open>digitalWrite\<close> and in
  \<^verbatim>\<open>searchOneWireDevices\<close>.
\<close>

definition firmata_pinMode :: "nat \<Rightarrow> int \<Rightarrow> board \<Rightarrow> board" where
  "firmata_pinMode pin m b =
     log (PinMode pin m)
       (b\<lparr>firmata := map_option
             (\<lambda>f. f\<lparr>pins := (pins f)[pin := (pins f ! pin)\<lparr>pin_mode := Some m\<rparr>]\<rparr>) (firmata b)\<rparr>)"

definition firmata_digitalWrite :: "nat \<Rightarrow> nat \<Rightarrow> bool \<Rightarrow> board \<Rightarrow> board" where
  "firmata_digitalWrite pin v enqueue b =
     log (DigitalWrite pin v enqueue)
       (b\<lparr>firmata := map_option
             (\<lambda>f. f\<lparr>pins := (pins f)[pin := (pins f ! pin)\<lparr>pin_value := v\<rparr>]\<rparr>) (firmata b)\<rparr>)"

text \<open>
  \<^verbatim>\<open>this.firmata.sysexCommand(message)\<close>, which throws on a board with no Firmata
  object.  An operation that fails returns the reason alone.
\<close>

definition sysexCommand :: "int list \<Rightarrow> board \<Rightarrow> reason + board" where
  "sysexCommand message b =
     (case firmata b of None \<Rightarrow> Inl TypeError | Some f \<Rightarrow> Inr (log (SysexCommand message) b))"

section \<open>releaseBoard, disconnect, handleDisconnectError\<close>

text \<open>
  \<^verbatim>\<open>
  releaseBoard () {
      this.state = 'disconnect';
      this.neoPixel = [];
      if (this.firmata) {
          if (this.firmata.transport) {
              this.firmata.transport.close();
          }
          this.firmata.removeAllListeners();
          this.firmata = null;
      }
      if (this.transport) {
          this.transport.close();
          this.transport = null;
      }
      this.oneWireDevices = null;
      this.extensionId = null;
      this.emit('disconnect');
      this.emit(AkaDakoBoard.RELEASED);
  }
  \<close>
\<close>

definition releaseBoard :: "board \<Rightarrow> board" where
  "releaseBoard b =
    (let b1 = b\<lparr>state := Disconnect, neoPixel := []\<rparr>;
         b2 = (case firmata b1 of
                 None \<Rightarrow> b1
               | Some f \<Rightarrow>
                   (let b' = (case transport f of None \<Rightarrow> b1 | Some t \<Rightarrow> log TransportClose b1)
                    in (log RemoveAllListeners b')\<lparr>firmata := None\<rparr>));
         b3 = (case board_transport b2 of
                 None \<Rightarrow> b2
               | Some t \<Rightarrow> (log TransportClose b2)\<lparr>board_transport := None\<rparr>);
         b4 = b3\<lparr>oneWireDevices := None, extensionId := None\<rparr>
     in log (Emit ''RELEASED'') (log (Emit ''disconnect'') b4))"

text \<open>
  \<^verbatim>\<open>
  disconnect () {
      if (this.state === 'disconnect') return;
      if (this.firmata && this.firmata.transport.isOpen) {
          this.firmata.reset(); // notify disconnection to board
      }
      this.releaseBoard();
  }
  \<close>
  A Firmata object without a transport makes the read of \<^verbatim>\<open>isOpen\<close> throw.
\<close>

definition disconnect :: "board \<Rightarrow> reason + board" where
  "disconnect b =
    (if state b = Disconnect then Inr b
     else case firmata b of
       None \<Rightarrow> Inr (releaseBoard b)
     | Some f \<Rightarrow>
         (case transport f of
            None \<Rightarrow> Inl TypeError
          | Some t \<Rightarrow> Inr (releaseBoard (if isOpen t then log FirmataReset b else b))))"

text \<open>
  \<^verbatim>\<open>
  handleDisconnectError (error) {
      if (this.state === 'disconnect') return;
      error = error ? error : 'Firmata was disconnected by device';
      console.error(error);
      this.runtime.emit(this.runtime.constructor.PERIPHERAL_CONNECTION_LOST_ERROR, {
          message: `Scratch lost connection to`,
          extensionId: this.extensionId
      });
      this.disconnect();
  }
  \<close>
\<close>

definition handleDisconnectError :: "board \<Rightarrow> string option \<Rightarrow> reason + board" where
  "handleDisconnectError b error =
    (if state b = Disconnect then Inr b
     else
       let msg = (case error of
                    None \<Rightarrow> ''Firmata was disconnected by device''
                  | Some e \<Rightarrow> if e = [] then ''Firmata was disconnected by device'' else e)
       in disconnect (log (RuntimeEmitConnectionLost (extensionId b)) (log (ConsoleError msg) b)))"

section \<open>digitalWrite\<close>

text \<open>
  \<^verbatim>\<open>
  digitalWrite (pin, value, enqueue) {
      if (this.firmata.pins[pin].value === value) {
          // to avoid chattering of the relay
          return new Promise(resolve => {
              setTimeout(() => resolve(), this.sendingInterval);
          });
      }
      this.firmata.pinMode(pin, this.firmata.MODES.OUTPUT);
      return new Promise(resolve => {
          this.firmata.digitalWrite(pin, value, enqueue);
          setTimeout(() => resolve(), this.sendingInterval);
      });
  }
  \<close>
  The promise resolves after \<^verbatim>\<open>sendingInterval\<close> on both paths; the model returns
  the board as it is once the calls are made, or the \<^verbatim>\<open>TypeError\<close> of a board with
  no Firmata object or of a pin outside the table.
\<close>

definition digitalWrite :: "board \<Rightarrow> nat \<Rightarrow> nat \<Rightarrow> bool \<Rightarrow> reason + board" where
  "digitalWrite b pin v enqueue =
    (case firmata b of
       None \<Rightarrow> Inl TypeError
     | Some f \<Rightarrow>
         if length (pins f) \<le> pin then Inl TypeError
         else if pin_value (pins f ! pin) = v then Inr b
         else Inr (firmata_digitalWrite pin v enqueue (firmata_pinMode pin (OUTPUT (MODES f)) b)))"

section \<open>OneWire\<close>

text \<open>
  \<^verbatim>\<open>
  searchOneWireDevices (pin) {
      return new Promise((resolve, reject) => {
          if (this.firmata.pins[pin].mode !== this.firmata.MODES.ONEWIRE) {
              this.firmata.sendOneWireConfig(pin, true);
              return this.firmata.sendOneWireSearch(pin, (error, founds) => {
                  if (error) return reject(error);
                  if (founds.length < 1) return reject(new Error('no device'));
                  this.firmata.pinMode(pin, this.firmata.MODES.ONEWIRE);
                  this.oneWireDevices = founds;
                  this.firmata.sendOneWireDelay(pin, 1);
                  resolve(this.oneWireDevices);
              });
          }
          resolve(this.oneWireDevices);
      });
  }
  \<close>
  The library answers the search by calling the callback with an error or with the
  device ids found.  The answer is an argument of the model (\<open>None\<close>: no answer
  comes), and the callback runs on the board as the call left it.  The result is the
  state of the returned promise with the board after the call.
\<close>

datatype search_reply = SearchError string | Founds "device list"

definition searchOneWireDevices ::
  "board \<Rightarrow> nat \<Rightarrow> search_reply option \<Rightarrow> device list option promise \<times> board" where
  "searchOneWireDevices b pin reply =
    (case firmata b of
       None \<Rightarrow> (Rejected TypeError, b)
     | Some f \<Rightarrow>
         if length (pins f) \<le> pin then (Rejected TypeError, b)
         else if pin_mode (pins f ! pin) \<noteq> Some (ONEWIRE (MODES f)) then
           (let b1 = log (SendOneWireSearch pin) (log (SendOneWireConfig pin True) b)
            in case reply of
                 None \<Rightarrow> (Pending, b1)
               | Some (SearchError e) \<Rightarrow> (Rejected (LibraryError e), b1)
               | Some (Founds founds) \<Rightarrow>
                   if length founds < 1 then (Rejected NoDevice, b1)
                   else
                     (let b2 = firmata_pinMode pin (ONEWIRE (MODES f)) b1;
                          b3 = b2\<lparr>oneWireDevices := Some founds\<rparr>;
                          b4 = log (SendOneWireDelay pin 1) b3
                      in (Resolved (oneWireDevices b4), b4)))
         else (Resolved (oneWireDevices b), b))"

text \<open>\<^verbatim>\<open>devices[0]\<close>: \<^verbatim>\<open>undefined\<close> for an empty array.\<close>

definition first_device :: "device list \<Rightarrow> device option" where
  "first_device devices = (case devices of [] \<Rightarrow> None | d # _ \<Rightarrow> Some d)"

text \<open>
  \<^verbatim>\<open>
  oneWireWrite (pin, data) {
      return this.searchOneWireDevices(pin)
          .then(devices => {
              this.firmata.sendOneWireWrite(pin, devices[0], data);
          });
  }
  \<close>
\<close>

definition oneWireWrite ::
  "board \<Rightarrow> nat \<Rightarrow> nat list \<Rightarrow> search_reply option \<Rightarrow> unit promise \<times> board" where
  "oneWireWrite b pin data reply =
    (case searchOneWireDevices b pin reply of
       (Pending, b1) \<Rightarrow> (Pending, b1)
     | (Rejected r, b1) \<Rightarrow> (Rejected r, b1)
     | (Resolved None, b1) \<Rightarrow> (Rejected TypeError, b1)
     | (Resolved (Some devices), b1) \<Rightarrow>
         (Resolved (), log (SendOneWireWrite pin (first_device devices) data) b1))"

text \<open>
  \<^verbatim>\<open>
  oneWireRead (pin, length, timeout) {
      timeout = timeout ? timeout : this.oneWireReadWaitingTime;
      const request = this.searchOneWireDevices(pin)
          .then(devices =>
              new Promise((resolve, reject) => {
                  this.firmata.sendOneWireRead(pin, devices[0], length, (readError, data) => {
                      if (readError) return reject(readError);
                      resolve(data);
                  });
              }));
      return Promise.race([request, timeoutReject(timeout)]);
  }
  \<close>
  The answer to the read is an argument as well.  Where an answer does not come, the
  timer wins the race.
\<close>

datatype read_reply = ReadError string | ReadData "nat list"

definition timeout_or :: "nat option \<Rightarrow> nat \<Rightarrow> nat" where
  \<comment> \<open>\<^verbatim>\<open>timeout ? timeout : default\<close>: the default for \<^verbatim>\<open>undefined\<close> and for 0\<close>
  "timeout_or timeout dflt = (case timeout of None \<Rightarrow> dflt | Some t \<Rightarrow> if t = 0 then dflt else t)"

definition oneWireRead ::
  "board \<Rightarrow> nat \<Rightarrow> nat \<Rightarrow> nat option \<Rightarrow> search_reply option \<Rightarrow> read_reply option
     \<Rightarrow> nat list promise \<times> board" where
  "oneWireRead b pin len timeout reply rreply =
    (let t = timeout_or timeout (oneWireReadWaitingTime b)
     in case searchOneWireDevices b pin reply of
          (Pending, b1) \<Rightarrow> (Rejected (Timeout t), b1)
        | (Rejected r, b1) \<Rightarrow> (Rejected r, b1)
        | (Resolved None, b1) \<Rightarrow> (Rejected TypeError, b1)
        | (Resolved (Some devices), b1) \<Rightarrow>
            (let b2 = log (SendOneWireRead pin (first_device devices) len) b1
             in case rreply of
                  None \<Rightarrow> (Rejected (Timeout t), b2)
                | Some (ReadError e) \<Rightarrow> (Rejected (LibraryError e), b2)
                | Some (ReadData d) \<Rightarrow> (Resolved d, b2)))"

text \<open>
  \<^verbatim>\<open>
  oneWireWriteAndRead (pin, data, readLength, timeout) {
      timeout = timeout ? timeout : this.oneWireReadWaitingTime;
      const request = this.searchOneWireDevices(pin)
          .then(devices =>
              new Promise((resolve, reject) => {
                  this.firmata.sendOneWireWriteAndRead(
                      pin, devices[0], data, readLength,
                      (readError, readData) => {
                          if (readError) return reject(readError);
                          resolve(readData);
                      });
              }));
      return Promise.race([request, timeoutReject(timeout)]);
  }
  \<close>
\<close>

definition oneWireWriteAndRead ::
  "board \<Rightarrow> nat \<Rightarrow> nat list \<Rightarrow> nat \<Rightarrow> nat option \<Rightarrow> search_reply option \<Rightarrow> read_reply option
     \<Rightarrow> nat list promise \<times> board" where
  "oneWireWriteAndRead b pin data readLength timeout reply rreply =
    (let t = timeout_or timeout (oneWireReadWaitingTime b)
     in case searchOneWireDevices b pin reply of
          (Pending, b1) \<Rightarrow> (Rejected (Timeout t), b1)
        | (Rejected r, b1) \<Rightarrow> (Rejected r, b1)
        | (Resolved None, b1) \<Rightarrow> (Rejected TypeError, b1)
        | (Resolved (Some devices), b1) \<Rightarrow>
            (let b2 = log (SendOneWireWriteAndRead pin (first_device devices) data readLength) b1
             in case rreply of
                  None \<Rightarrow> (Rejected (Timeout t), b2)
                | Some (ReadError e) \<Rightarrow> (Rejected (LibraryError e), b2)
                | Some (ReadData d) \<Rightarrow> (Resolved d, b2)))"

section \<open>NeoPixel strips\<close>

text \<open>
  The constants of \<^verbatim>\<open>./node-pixel-constants\<close> are not in the source at hand.  The
  command codes and the color order are parameters of the model.
\<close>

record pixel_constants =
  PIXEL_COMMAND :: int
  PIXEL_CONFIG :: int
  PIXEL_SET_PIXEL :: int
  PIXEL_SHOW :: int
  COLOR_ORDER_GRB :: int

text \<open>
  Modelled from the spec: \<^verbatim>\<open>FIRMATA_7BIT_MASK\<close> of \<^verbatim>\<open>./node-pixel-constants\<close>,
  which is not in the source at hand.  The spec has each wire byte carry seven
  significant bits, the high bit reserved: the mask is \<^verbatim>\<open>0x7F\<close>.
\<close>

definition FIRMATA_7BIT_MASK :: int where
  "FIRMATA_7BIT_MASK = 0x7F"

text \<open>
  \<^verbatim>\<open>
  neoPixelConfigStrip (pin, length) {
      this.pins[pin].mode = PIXEL_COMMAND;
      const oldStrip = this.neoPixel.find(aStrip => aStrip.pin === pin);
      if(oldStrip != null) {
          this.neoPixel = this.neoPixel.filter(aStrip => aStrip.pin !== pin);
          this.neoPixel.push(Object.assign(oldStrip, {length: length}));
      } else {
          this.neoPixel = this.neoPixel.filter(aStrip => aStrip.pin !== pin);
          this.neoPixel.push({pin: pin, length: length});
      }
      const message = [];
      message[0] = PIXEL_COMMAND;
      message[1] = PIXEL_CONFIG;
      for (const aStrip of this.neoPixel) {
          message.push((COLOR_ORDER.GRB << 5) | aStrip.pin);
          message.push(aStrip.length & FIRMATA_7BIT_MASK);
          message.push((aStrip.length >> 7) & FIRMATA_7BIT_MASK);
      }
      return this.neoPixelThrottledQueue(()=>{this.firmata.sysexCommand(message)});
  }
  \<close>
  \<^verbatim>\<open>this.pins\<close> is \<^verbatim>\<open>this.firmata.pins\<close>.  The throttled queue runs the sends
  one at a time in the order they were queued; the model makes each send where it is
  queued, which keeps that order.
\<close>

definition stripConfig :: "pixel_constants \<Rightarrow> strip \<Rightarrow> int list" where
  "stripConfig K aStrip =
     [js_or (Num (js_shl (Num (COLOR_ORDER_GRB K)) 5)) (Num (int (strip_pin aStrip))),
      js_and (Num (int (strip_length aStrip))) (Num FIRMATA_7BIT_MASK),
      js_and (Num (js_shr (Num (int (strip_length aStrip))) 7)) (Num FIRMATA_7BIT_MASK)]"

definition neoPixelConfigStrip :: "pixel_constants \<Rightarrow> board \<Rightarrow> nat \<Rightarrow> nat \<Rightarrow> reason + board" where
  "neoPixelConfigStrip K b pin len =
    (case firmata b of
       None \<Rightarrow> Inl TypeError
     | Some f \<Rightarrow>
         if length (pins f) \<le> pin then Inl TypeError
         else
           (let f1 = f\<lparr>pins := (pins f)[pin := (pins f ! pin)\<lparr>pin_mode := Some (PIXEL_COMMAND K)\<rparr>]\<rparr>;
                oldStrip = find (\<lambda>aStrip. strip_pin aStrip = pin) (neoPixel b);
                others = filter (\<lambda>aStrip. strip_pin aStrip \<noteq> pin) (neoPixel b);
                strips = (case oldStrip of
                            Some s \<Rightarrow> others @ [s\<lparr>strip_length := len\<rparr>]
                          | None \<Rightarrow> others @
                              [\<lparr>strip_pin = pin, strip_length = len, strip_colors = None\<rparr>]);
                message = [PIXEL_COMMAND K, PIXEL_CONFIG K] @ concat (map (stripConfig K) strips)
            in sysexCommand message (b\<lparr>firmata := Some f1, neoPixel := strips\<rparr>)))"

text \<open>
  \<^verbatim>\<open>
  async neoPixelSetColor (pin, color, index=0) {
      let address = 0;
      let prevStrip = true;
      for (const aStrip of this.neoPixel) {
          if (aStrip.pin === pin) {
              address += Math.max(0, index % aStrip.length);
              prevStrip = false;
          }
          if (prevStrip) {
              address += aStrip.length;
          }
      }
      if (prevStrip) {
          // A module at the pin has not configured yet.
          await this.neoPixelConfigStrip(pin, this.defaultNeoPixelLength);
      }
      const strip = this.neoPixel.find(aStrip => aStrip.pin === pin);
      strip.colors = strip.colors || Array(strip.length);
      strip.colors[index] = color;
      const colorValue = neoPixelColorValue(color, neoPixelGammaTable);
      const message = new Array(8);
      message[0] = (PIXEL_COMMAND);
      message[1] = (PIXEL_SET_PIXEL);
      message[2] = (address & FIRMATA_7BIT_MASK);
      message[3] = ((address >> 7) & FIRMATA_7BIT_MASK);
      message[4] = (colorValue & FIRMATA_7BIT_MASK);
      message[5] = ((colorValue >> 7) & FIRMATA_7BIT_MASK);
      message[6] = ((colorValue >> 14) & FIRMATA_7BIT_MASK);
      message[7] = ((colorValue >> 21) & FIRMATA_7BIT_MASK);
      return this.neoPixelThrottledQueue(()=>{this.firmata.sysexCommand(message)});
  }
  \<close>
  The loop over the strips, with its two variables:
\<close>

fun addressLoop :: "nat \<Rightarrow> int \<Rightarrow> strip list \<Rightarrow> jsnum \<times> bool \<Rightarrow> jsnum \<times> bool" where
  "addressLoop pin index [] (address, prevStrip) = (address, prevStrip)"
| "addressLoop pin index (aStrip # rest) (address, prevStrip) =
     (let (address1, prevStrip1) =
            (if strip_pin aStrip = pin
             then (js_add address
                     (js_max (Num 0) (js_rem (Num index) (Num (int (strip_length aStrip))))),
                   False)
             else (address, prevStrip));
          address2 = (if prevStrip1 then js_add address1 (Num (int (strip_length aStrip)))
                      else address1)
      in addressLoop pin index rest (address2, prevStrip1))"

text \<open>
  \<^verbatim>\<open>array[index] = v\<close>: past the end the array grows, with empty slots between; a
  negative index names a property that is not an element, and the elements and the
  length stay as they are.
\<close>

definition array_set :: "slot list \<Rightarrow> int \<Rightarrow> slot \<Rightarrow> slot list" where
  "array_set xs i v =
     (if i < 0 then xs
      else if nat i < length xs then xs[nat i := v]
      else xs @ replicate (nat i - length xs) Undefined @ [v])"

text \<open>The strip \<^verbatim>\<open>find\<close> returns is an object of the array: a write to it is a write to
  the first strip of that pin.\<close>

fun update_first :: "('a \<Rightarrow> bool) \<Rightarrow> ('a \<Rightarrow> 'a) \<Rightarrow> 'a list \<Rightarrow> 'a list" where
  "update_first P g [] = []"
| "update_first P g (x # xs) = (if P x then g x # xs else x # update_first P g xs)"

definition setPixelMessage :: "pixel_constants \<Rightarrow> jsnum \<Rightarrow> jsnum \<Rightarrow> int list" where
  "setPixelMessage K address colorValue =
     [PIXEL_COMMAND K,
      PIXEL_SET_PIXEL K,
      js_and address (Num FIRMATA_7BIT_MASK),
      js_and (Num (js_shr address 7)) (Num FIRMATA_7BIT_MASK),
      js_and colorValue (Num FIRMATA_7BIT_MASK),
      js_and (Num (js_shr colorValue 7)) (Num FIRMATA_7BIT_MASK),
      js_and (Num (js_shr colorValue 14)) (Num FIRMATA_7BIT_MASK),
      js_and (Num (js_shr colorValue 21)) (Num FIRMATA_7BIT_MASK)]"

definition neoPixelSetColor ::
  "pixel_constants \<Rightarrow> board \<Rightarrow> nat \<Rightarrow> rgb \<Rightarrow> int \<Rightarrow> reason + board" where
  "neoPixelSetColor K b pin color index =
    (let (address, prevStrip) = addressLoop pin index (neoPixel b) (Num 0, True)
     in case (if prevStrip then neoPixelConfigStrip K b pin (defaultNeoPixelLength b) else Inr b) of
          Inl e \<Rightarrow> Inl e
        | Inr b1 \<Rightarrow>
            (case find (\<lambda>aStrip. strip_pin aStrip = pin) (neoPixel b1) of
               None \<Rightarrow> Inl TypeError
             | Some strip \<Rightarrow>
                 (let colors = (case strip_colors strip of
                                  Some cs \<Rightarrow> cs
                                | None \<Rightarrow> replicate (strip_length strip) Undefined);
                      colors1 = array_set colors index (Color color);
                      b2 = b1\<lparr>neoPixel := update_first (\<lambda>aStrip. strip_pin aStrip = pin)
                                   (\<lambda>aStrip. aStrip\<lparr>strip_colors := Some colors1\<rparr>) (neoPixel b1)\<rparr>;
                      colorValue = neoPixelColorValue color neoPixelGammaTable
                  in sysexCommand (setPixelMessage K address colorValue) b2)))"

text \<open>
  \<^verbatim>\<open>
  async neoPixelFillColor(pin, colorMapFn) {
      const strip = this.neoPixel.find(aStrip => aStrip.pin === pin);
      const length = strip ? strip.length : this.defaultNeoPixelLength;
      const oldColors = (strip && strip.colors) || Array(length);
      if(oldColors.length < length) {
          oldColors[length - 1] = null;
      }
      if(length < oldColors.length) {
          oldColors.splice(length);
      }
      const newColors = [...oldColors].map(colorMapFn);
      for (let index = 0; index < length; index++) {
          const color = newColors[index];
          if(color != null) {
              await this.neoPixelSetColor(pin, color, index);
          }
      }
  }
  \<close>
  \<^verbatim>\<open>oldColors\<close> is the strip's own array where the strip has one: the write of
  \<^verbatim>\<open>null\<close> and the \<^verbatim>\<open>splice\<close> change the strip.  The map function returns a
  color, or \<open>None\<close> for \<^verbatim>\<open>null\<close> and \<^verbatim>\<open>undefined\<close>.
\<close>

type_synonym colorMapFn = "slot \<Rightarrow> nat \<Rightarrow> slot list \<Rightarrow> rgb option"

fun fillLoop ::
  "pixel_constants \<Rightarrow> board \<Rightarrow> nat \<Rightarrow> rgb option list \<Rightarrow> nat list \<Rightarrow> reason + board" where
  "fillLoop K b pin newColors [] = Inr b"
| "fillLoop K b pin newColors (index # rest) =
     (case (if index < length newColors then newColors ! index else None) of
        None \<Rightarrow> fillLoop K b pin newColors rest
      | Some color \<Rightarrow>
          (case neoPixelSetColor K b pin color (int index) of
             Inl e \<Rightarrow> Inl e
           | Inr b1 \<Rightarrow> fillLoop K b1 pin newColors rest))"

definition resizeColors :: "slot list \<Rightarrow> nat \<Rightarrow> slot list" where
  "resizeColors oldColors len =
     (let grown = (if length oldColors < len then array_set oldColors (int len - 1) Null
                   else oldColors)
      in if len < length grown then take len grown else grown)"

definition neoPixelFillColor ::
  "pixel_constants \<Rightarrow> board \<Rightarrow> nat \<Rightarrow> colorMapFn \<Rightarrow> reason + board" where
  "neoPixelFillColor K b pin colorMapFn =
    (let strip = find (\<lambda>aStrip. strip_pin aStrip = pin) (neoPixel b);
         len = (case strip of Some s \<Rightarrow> strip_length s | None \<Rightarrow> defaultNeoPixelLength b);
         own = (case strip of Some s \<Rightarrow> strip_colors s | None \<Rightarrow> None);
         oldColors = resizeColors (case own of Some cs \<Rightarrow> cs | None \<Rightarrow> replicate len Undefined) len;
         b1 = (case own of
                 None \<Rightarrow> b
               | Some cs \<Rightarrow>
                   b\<lparr>neoPixel := update_first (\<lambda>aStrip. strip_pin aStrip = pin)
                         (\<lambda>aStrip. aStrip\<lparr>strip_colors := Some oldColors\<rparr>) (neoPixel b)\<rparr>);
         newColors = map (\<lambda>(index, c). colorMapFn c index oldColors)
                         (zip [0..<length oldColors] oldColors)
     in fillLoop K b1 pin newColors [0..<len])"

text \<open>
  \<^verbatim>\<open>
  neoPixelShow () {
      const message = new Array(2);
      message[0] = PIXEL_COMMAND;
      message[1] = PIXEL_SHOW;
      return this.neoPixelThrottledQueue(()=>{this.firmata.sysexCommand(message)});
  }
  async neoPixelClear (pin) {
      await this.neoPixelFillColor(pin, () => [0, 0, 0]);
      await this.neoPixelShow();
  }
  \<close>
\<close>

definition neoPixelShow :: "pixel_constants \<Rightarrow> board \<Rightarrow> reason + board" where
  "neoPixelShow K b = sysexCommand [PIXEL_COMMAND K, PIXEL_SHOW K] b"

definition neoPixelClear :: "pixel_constants \<Rightarrow> board \<Rightarrow> nat \<Rightarrow> reason + board" where
  "neoPixelClear K b pin =
     (case neoPixelFillColor K b pin (\<lambda>c index cs. Some (0, 0, 0)) of
        Inl e \<Rightarrow> Inl e
      | Inr b1 \<Rightarrow> neoPixelShow K b1)"

section \<open>Queries: a command, a one-shot listener, a timer\<close>

text \<open>
  \<^verbatim>\<open>
  const BOARD_VERSION_QUERY = 0x0F;
  const ULTRASONIC_DISTANCE_QUERY = 0x01;
  const WATER_TEMPERATURE_QUERY = 0x02;
  const timeoutReject = delay => new Promise((_, reject) =>
      setTimeout(() => reject(`timeout ${delay}ms`), delay));
  \<close>
  \<^verbatim>\<open>boardVersion\<close>, \<^verbatim>\<open>getDistanceByUltrasonic\<close> and \<^verbatim>\<open>getWaterTemp\<close> have one
  shape:
  \<^verbatim>\<open>
      const request = new Promise((resolve, reject) => {
          firmata.once(event, data => { ... resolve(value); });
          firmata.sysexCommand([QUERY, pin]);
      });
      return Promise.race([request, timeoutReject(timeout)])
          .catch(reason => {
              firmata.removeAllListeners(event);
              return Promise.reject(reason);
          });
  \<close>
  A query is the pair of promises of one such call: \<^verbatim>\<open>request\<close>, which the listener
  settles, and the promise the call returns.  A promise is settled once: a later
  \<^verbatim>\<open>resolve\<close> or \<^verbatim>\<open>reject\<close> does nothing.  Time is the order of the events: the
  library emitting a response, and a timer firing.  The reactions of the promises run
  before the next event is taken, so each event is one step of the model.
\<close>

definition BOARD_VERSION_QUERY :: int where
  "BOARD_VERSION_QUERY = 0x0F"

definition ULTRASONIC_DISTANCE_QUERY :: int where
  "ULTRASONIC_DISTANCE_QUERY = 0x01"

definition WATER_TEMPERATURE_QUERY :: int where
  "WATER_TEMPERATURE_QUERY = 0x02"

definition once :: "event \<Rightarrow> listener \<Rightarrow> board \<Rightarrow> board" where
  \<comment> \<open>\<^verbatim>\<open>firmata.once(event, listener)\<close>\<close>
  "once ev l b =
     b\<lparr>firmata := map_option (\<lambda>f. f\<lparr>listeners := listeners f @ [(ev, l)]\<rparr>) (firmata b)\<rparr>"

definition removeAllListeners :: "event \<Rightarrow> board \<Rightarrow> board" where
  \<comment> \<open>\<^verbatim>\<open>firmata.removeAllListeners(event)\<close>\<close>
  "removeAllListeners ev b =
     b\<lparr>firmata := map_option
           (\<lambda>f. f\<lparr>listeners := filter (\<lambda>el. fst el \<noteq> ev) (listeners f)\<rparr>) (firmata b)\<rparr>"

text \<open>
  The promise a call returns is settled by the first of \<^verbatim>\<open>request\<close> and the timer
  to settle; where that is a rejection, the \<^verbatim>\<open>catch\<close> removes the listeners of the
  event before it rejects.
\<close>

definition settle_result :: "nat \<Rightarrow> qvalue promise \<Rightarrow> board \<Rightarrow> board" where
  "settle_result qid outcome b =
     (if qid < length (queries b) \<and> q_result (queries b ! qid) = Pending
      then
        (let q = queries b ! qid;
             b1 = (case outcome of Rejected r \<Rightarrow> removeAllListeners (q_event q) b | _ \<Rightarrow> b)
         in b1\<lparr>queries := (queries b1)[qid := q\<lparr>q_result := outcome\<rparr>]\<rparr>)
      else b)"

definition settle_request :: "nat \<Rightarrow> qvalue promise \<Rightarrow> board \<Rightarrow> board" where
  "settle_request qid outcome b =
     (if qid < length (queries b) \<and> q_request (queries b ! qid) = Pending
      then settle_result qid outcome
             (b\<lparr>queries := (queries b)[qid := (queries b ! qid)\<lparr>q_request := outcome\<rparr>]\<rparr>)
      else b)"

text \<open>
  \<^verbatim>\<open>
  const value = Firmata.decode([data[0], data[1]]);
  this.version = {
      type: (value >> 10) & 0x0F,
      major: (value >> 6) & 0x0F,
      minor: value & 0x3F
  };
  \<close>
  The library's \<^verbatim>\<open>decode\<close> joins the pair of 7-bit bytes, the first one low.
\<close>

definition decodeVersion :: "nat list \<Rightarrow> version" where
  "decodeVersion data =
     (let v = Num (js_or (js_nth (map int data) 0) (Num (js_shl (js_nth (map int data) 1) 7)))
      in \<lparr>vtype = js_and (Num (js_shr v 10)) (Num 0x0F),
          major = js_and (Num (js_shr v 6)) (Num 0x0F),
          minor = js_and v (Num 0x3F)\<rparr>)"

text \<open>The bodies of the listeners.\<close>

fun run_listener :: "listener \<Rightarrow> nat list \<Rightarrow> board \<Rightarrow> board" where
  "run_listener (OnBoardVersion qid) data b =
     (let v = decodeVersion data
      in settle_request qid (Resolved (VersionString v)) (b\<lparr>version := Some v\<rparr>))"
| "run_listener (OnSensor qid) data b =
     (if length data = 0 then settle_request qid (Rejected NotAvailable) b
      else settle_request qid (Resolved (SensorValue (decodeInt16FromTwo7bitBytes data))) b)"

text \<open>
  \<^verbatim>\<open>firmata.emit(event, data)\<close>: the listeners of the event are those of
  \<^verbatim>\<open>once\<close>; each is removed and called, in the order of registration.
\<close>

definition emit :: "event \<Rightarrow> nat list \<Rightarrow> board \<Rightarrow> board" where
  "emit ev data b =
     (case firmata b of
        None \<Rightarrow> b
      | Some f \<Rightarrow>
          (let ls = map snd (filter (\<lambda>el. fst el = ev) (listeners f));
               b1 = b\<lparr>firmata := Some (f\<lparr>listeners := filter (\<lambda>el. fst el \<noteq> ev) (listeners f)\<rparr>)\<rparr>
           in fold (\<lambda>l. run_listener l data) ls b1))"

text \<open>The timer of query \<open>qid\<close> fires: \<^verbatim>\<open>reject(`timeout ${delay}ms`)\<close>.\<close>

definition timeout_fires :: "nat \<Rightarrow> board \<Rightarrow> board" where
  "timeout_fires qid b =
     (if qid < length (queries b)
      then settle_result qid (Rejected (Timeout (q_delay (queries b ! qid)))) b
      else b)"

text \<open>
  A call returns a promise that is settled at once, or the number of the query it
  has made.  A call that throws before it returns is taken as one whose promise is
  rejected with what was thrown.
\<close>

datatype handle = Settled "qvalue promise" | Query nat

definition new_query :: "event \<Rightarrow> nat \<Rightarrow> listener \<Rightarrow> int list \<Rightarrow> board \<Rightarrow> board" where
  "new_query ev t l message b =
     log (SysexCommand message)
       (once ev l
          (b\<lparr>queries := queries b @
                [\<lparr>q_event = ev, q_delay = t, q_request = Pending, q_result = Pending\<rparr>]\<rparr>))"

text \<open>
  \<^verbatim>\<open>
  boardVersion (timeout) {
      if (this.version) return Promise.resolve(
          `${this.version.type}.${this.version.major}.${this.version.minor}`);
      const firmata = this.firmata;
      timeout = timeout ? timeout : this.boardVersionWaitingTime;
      const event = `board-version-reply`;
      const request = new Promise(resolve => {
          firmata.once(event,
              data => {
                  const value = Firmata.decode([data[0], data[1]]);
                  this.version = { ... };
                  resolve(`${this.version.type}.${this.version.major}.${this.version.minor}`);
              });
          firmata.sysexCommand([BOARD_VERSION_QUERY]);
      });
      return Promise.race([request, timeoutReject(timeout)])
          .catch(reason => {
              firmata.removeAllListeners(event);
              return Promise.reject(reason);
          });
  }
  \<close>
\<close>

definition boardVersion :: "board \<Rightarrow> nat option \<Rightarrow> handle \<times> board" where
  "boardVersion b timeout =
     (case version b of
        Some v \<Rightarrow> (Settled (Resolved (VersionString v)), b)
      | None \<Rightarrow>
          (case firmata b of
             None \<Rightarrow> (Settled (Rejected TypeError), b)
           | Some f \<Rightarrow>
               (let t = timeout_or timeout (boardVersionWaitingTime b);
                    qid = length (queries b)
                in (Query qid,
                    new_query BoardVersionReply t (OnBoardVersion qid) [BOARD_VERSION_QUERY] b))))"

text \<open>
  \<^verbatim>\<open>
  getDistanceByUltrasonic (pin, timeout) {
      const firmata = this.firmata;
      timeout = timeout ? timeout : this.ultrasonicDistanceWaitingTime;
      firmata.pinMode(pin, firmata.MODES.PING_READ);
      const event = `ultrasonic-distance-reply-${pin}`;
      const request = new Promise((resolve, reject) => {
          firmata.once(event,
              data => {
                  if (data.length === 0) return reject('not available');
                  const value = decodeInt16FromTwo7bitBytes(data);
                  resolve(value);
              });
          firmata.sysexCommand([ULTRASONIC_DISTANCE_QUERY, pin]);
      });
      return Promise.race([request, timeoutReject(timeout)])
          .catch(reason => {
              firmata.removeAllListeners(event);
              return Promise.reject(reason);
          });
  }
  \<close>
\<close>

definition getDistanceByUltrasonic :: "board \<Rightarrow> nat \<Rightarrow> nat option \<Rightarrow> handle \<times> board" where
  "getDistanceByUltrasonic b pin timeout =
     (case firmata b of
        None \<Rightarrow> (Settled (Rejected TypeError), b)
      | Some f \<Rightarrow>
          if length (pins f) \<le> pin then (Settled (Rejected TypeError), b)
          else
            (let t = timeout_or timeout (ultrasonicDistanceWaitingTime b);
                 b1 = firmata_pinMode pin (PING_READ (MODES f)) b;
                 qid = length (queries b1)
             in (Query qid,
                 new_query (UltrasonicDistanceReply pin) t (OnSensor qid)
                   [ULTRASONIC_DISTANCE_QUERY, int pin] b1)))"

text \<open>
  \<^verbatim>\<open>
  getWaterTemp (pin, timeout) {
      const firmata = this.firmata;
      timeout = timeout ? timeout : this.getWaterTempWaitingTime;
      const event = `water-temp-reply-${pin}`;
      const request = new Promise((resolve, reject) => {
          firmata.once(event,
              data => {
                  if (data.length === 0) return reject('not available');
                  const value = decodeInt16FromTwo7bitBytes(data);
                  resolve(value);
              });
          firmata.sysexCommand([WATER_TEMPERATURE_QUERY, pin]);
      });
      return Promise.race([request, timeoutReject(timeout)])
          .catch(reason => {
              firmata.removeAllListeners(event);
              return Promise.reject(reason);
          });
  }
  \<close>
\<close>

definition getWaterTemp :: "board \<Rightarrow> nat \<Rightarrow> nat option \<Rightarrow> handle \<times> board" where
  "getWaterTemp b pin timeout =
     (case firmata b of
        None \<Rightarrow> (Settled (Rejected TypeError), b)
      | Some f \<Rightarrow>
          (let t = timeout_or timeout (getWaterTempWaitingTime b);
               qid = length (queries b)
           in (Query qid,
               new_query (WaterTempReply pin) t (OnSensor qid)
                 [WATER_TEMPERATURE_QUERY, int pin] b)))"

text \<open>The three query operations, and the events of a session.\<close>

datatype operation =
    BoardVersion "nat option"
  | GetDistanceByUltrasonic nat "nat option"
  | GetWaterTemp nat "nat option"

fun call :: "operation \<Rightarrow> board \<Rightarrow> handle \<times> board" where
  "call (BoardVersion timeout) b = boardVersion b timeout"
| "call (GetDistanceByUltrasonic pin timeout) b = getDistanceByUltrasonic b pin timeout"
| "call (GetWaterTemp pin timeout) b = getWaterTemp b pin timeout"

fun event_of :: "operation \<Rightarrow> event" where
  "event_of (BoardVersion timeout) = BoardVersionReply"
| "event_of (GetDistanceByUltrasonic pin timeout) = UltrasonicDistanceReply pin"
| "event_of (GetWaterTemp pin timeout) = WaterTempReply pin"

fun delay_of :: "operation \<Rightarrow> board \<Rightarrow> nat" where
  "delay_of (BoardVersion timeout) b = timeout_or timeout (boardVersionWaitingTime b)"
| "delay_of (GetDistanceByUltrasonic pin timeout) b =
     timeout_or timeout (ultrasonicDistanceWaitingTime b)"
| "delay_of (GetWaterTemp pin timeout) b = timeout_or timeout (getWaterTempWaitingTime b)"

datatype step =
    Response event "nat list"   \<comment> \<open>the library emits a response event\<close>
  | TimerFires nat              \<comment> \<open>the timer of a query fires\<close>
  | Call operation              \<comment> \<open>the application makes another query\<close>

fun do_step :: "step \<Rightarrow> board \<Rightarrow> board" where
  "do_step (Response ev data) b = emit ev data b"
| "do_step (TimerFires qid) b = timeout_fires qid b"
| "do_step (Call operation) b = snd (call operation b)"

definition run :: "step list \<Rightarrow> board \<Rightarrow> board" where
  "run steps b = fold do_step steps b"

fun listener_id :: "listener \<Rightarrow> nat" where
  "listener_id (OnBoardVersion qid) = qid"
| "listener_id (OnSensor qid) = qid"

definition board_listeners :: "board \<Rightarrow> (event \<times> listener) list" where
  "board_listeners b = (case firmata b of None \<Rightarrow> [] | Some f \<Rightarrow> listeners f)"

text \<open>Every listener belongs to a query that was made.\<close>

definition listeners_known :: "board \<Rightarrow> bool" where
  "listeners_known b = list_all (\<lambda>el. listener_id (snd el) < length (queries b)) (board_listeners b)"

definition is_response_to :: "event \<Rightarrow> step \<Rightarrow> bool" where
  "is_response_to ev s = (case s of Response e data \<Rightarrow> e = ev | _ \<Rightarrow> False)"

section \<open>Example values\<close>

definition exampleModes :: modes where
  "exampleModes =
     \<lparr>INPUT = 0x00, OUTPUT = 0x01, ANALOG = 0x02, PULLUP = 0x0B, ONEWIRE = 0x07,
      PING_READ = 0x75\<rparr>"

definition exampleFirmata :: firmata where
  "exampleFirmata =
     \<lparr>pins = replicate 12 \<lparr>pin_mode = None, pin_value = 0\<rparr>, MODES = exampleModes,
      transport = Some \<lparr>isOpen = True\<rparr>, listeners = []\<rparr>"

text \<open>A board that is connected and ready, with no query made yet.\<close>

definition exampleBoard :: board where
  "exampleBoard = constructor\<lparr>state := Ready, firmata := Some exampleFirmata\<rparr>"

definition exampleConstants :: pixel_constants where
  "exampleConstants =
     \<lparr>PIXEL_COMMAND = 0x51, PIXEL_CONFIG = 0x01, PIXEL_SET_PIXEL = 0x03, PIXEL_SHOW = 0x02,
      COLOR_ORDER_GRB = 0x00\<rparr>"

text \<open>A board whose version query was answered.\<close>

definition versionedBoard :: board where
  "versionedBoard = exampleBoard\<lparr>version := Some \<lparr>vtype = 2, major = 1, minor = 0\<rparr>\<rparr>"

text \<open>Two OneWire device ids.\<close>

definition deviceA :: device where
  "deviceA = [0x28, 1, 2, 3, 4, 5, 6, 7]"

definition deviceB :: device where
  "deviceB = [0x28, 9, 9, 9, 9, 9, 9, 9]"

section \<open>Sequences of calls\<close>

text \<open>
  One call after another, as with \<^verbatim>\<open>await\<close>: the first failure ends the
  sequence.
\<close>

definition andThen :: "reason + board \<Rightarrow> (board \<Rightarrow> reason + board) \<Rightarrow> reason + board" where
  "andThen r g = (case r of Inl e \<Rightarrow> Inl e | Inr b \<Rightarrow> g b)"

fun configureAll :: "pixel_constants \<Rightarrow> board \<Rightarrow> (nat \<times> nat) list \<Rightarrow> reason + board" where
  "configureAll K b [] = Inr b"
| "configureAll K b ((pin, len) # calls) =
     andThen (neoPixelConfigStrip K b pin len) (\<lambda>b1. configureAll K b1 calls)"

text \<open>What a sequence of calls leaves: the strips, and the address bytes of the last frame.\<close>

definition strips_of :: "reason + board \<Rightarrow> reason + strip list" where
  "strips_of r = (case r of Inl e \<Rightarrow> Inl e | Inr b \<Rightarrow> Inr (neoPixel b))"

definition setPixelAddress :: "effect \<Rightarrow> int list" where
  "setPixelAddress e = (case e of SysexCommand message \<Rightarrow> [message ! 2, message ! 3] | _ \<Rightarrow> [])"

definition lastAddress :: "reason + board \<Rightarrow> int list" where
  "lastAddress r = (case r of Inl e \<Rightarrow> [] | Inr b \<Rightarrow> setPixelAddress (last (effects b)))"

text \<open>The strips registered before the strip of a pin.\<close>

definition stripsBefore :: "nat \<Rightarrow> strip list \<Rightarrow> strip list" where
  "stripsBefore pin strips = takeWhile (\<lambda>aStrip. strip_pin aStrip \<noteq> pin) strips"

text \<open>A strip with its color buffer, where it has one, brought to the length of the strip.\<close>

definition resizeStrip :: "strip \<Rightarrow> strip" where
  "resizeStrip aStrip =
     aStrip\<lparr>strip_colors :=
       map_option (\<lambda>cs. resizeColors cs (strip_length aStrip)) (strip_colors aStrip)\<rparr>"

text \<open>Strip A at pin 3 with five LEDs, then strip B at pin 7 with two.\<close>

definition twoStrips :: "reason + board" where
  "twoStrips = configureAll exampleConstants exampleBoard [(3, 5), (7, 2)]"

text \<open>A strip of two LEDs at pin 3, and a color set at index 2 of it.\<close>

definition overfilled :: "reason + board" where
  "overfilled =
     andThen (configureAll exampleConstants exampleBoard [(3, 2)])
       (\<lambda>b. neoPixelSetColor exampleConstants b 3 (10, 20, 30) 2)"

section \<open>The state of one query\<close>

text \<open>
  \<open>keeps qid b b'\<close>: from \<open>b\<close> to \<open>b'\<close> no query was lost, query \<open>qid\<close> is
  as it was, and every listener of \<open>b'\<close> that settles query \<open>qid\<close> was a listener
  of \<open>b\<close>.
\<close>

definition keeps :: "nat \<Rightarrow> board \<Rightarrow> board \<Rightarrow> bool" where
  "keeps qid b b' \<longleftrightarrow>
     length (queries b) \<le> length (queries b')
     \<and> queries b' ! qid = queries b ! qid
     \<and> (\<forall>el \<in> set (board_listeners b'). el \<in> set (board_listeners b) \<or> listener_id (snd el) \<noteq> qid)"

text \<open>Query \<open>qid\<close> waits: nothing is settled, and its listeners are on its event.\<close>

definition pending_query :: "nat \<Rightarrow> event \<Rightarrow> nat \<Rightarrow> board \<Rightarrow> bool" where
  "pending_query qid ev d b \<longleftrightarrow>
     qid < length (queries b)
     \<and> queries b ! qid = \<lparr>q_event = ev, q_delay = d, q_request = Pending, q_result = Pending\<rparr>
     \<and> (\<forall>el \<in> set (board_listeners b). listener_id (snd el) = qid \<longrightarrow> fst el = ev)"

text \<open>Query \<open>qid\<close> has timed out: the call has failed, and no listener of it is left.\<close>

definition timed_out_query :: "nat \<Rightarrow> event \<Rightarrow> nat \<Rightarrow> board \<Rightarrow> bool" where
  "timed_out_query qid ev d b \<longleftrightarrow>
     qid < length (queries b)
     \<and> queries b ! qid
         = \<lparr>q_event = ev, q_delay = d, q_request = Pending, q_result = Rejected (Timeout d)\<rparr>
     \<and> (\<forall>el \<in> set (board_listeners b). listener_id (snd el) \<noteq> qid)"

text \<open>The example board after \<^verbatim>\<open>boardVersion(200)\<close>.\<close>

definition versionQuery :: board where
  "versionQuery = snd (call (BoardVersion (Some 200)) exampleBoard)"

text \<open>
  A strip of two LEDs at pin 3 with a color at index 0, then configured again with
  four LEDs.
\<close>

definition regrown :: "reason + board" where
  "regrown =
     andThen (andThen (configureAll exampleConstants exampleBoard [(3, 2)])
                (\<lambda>b. neoPixelSetColor exampleConstants b 3 (10, 20, 30) 0))
       (\<lambda>b. neoPixelConfigStrip exampleConstants b 3 4)"

section \<open>What a query operation needs, sends and answers\<close>

text \<open>
  The board on which a call makes its query: it has a Firmata object; for
  \<^verbatim>\<open>boardVersion\<close> no version is cached; for \<^verbatim>\<open>getDistanceByUltrasonic\<close> the pin
  is in the pin table.
\<close>

fun ready_for :: "operation \<Rightarrow> board \<Rightarrow> bool" where
  "ready_for (BoardVersion timeout) b = (firmata b \<noteq> None \<and> version b = None)"
| "ready_for (GetDistanceByUltrasonic pin timeout) b =
     (case firmata b of None \<Rightarrow> False | Some f \<Rightarrow> pin < length (pins f))"
| "ready_for (GetWaterTemp pin timeout) b = (firmata b \<noteq> None)"

text \<open>The command each operation sends, the listener it registers, and what the
  listener makes of a response.\<close>

fun command_of :: "operation \<Rightarrow> int list" where
  "command_of (BoardVersion timeout) = [BOARD_VERSION_QUERY]"
| "command_of (GetDistanceByUltrasonic pin timeout) = [ULTRASONIC_DISTANCE_QUERY, int pin]"
| "command_of (GetWaterTemp pin timeout) = [WATER_TEMPERATURE_QUERY, int pin]"

fun listener_of :: "operation \<Rightarrow> nat \<Rightarrow> listener" where
  "listener_of (BoardVersion timeout) qid = OnBoardVersion qid"
| "listener_of (GetDistanceByUltrasonic pin timeout) qid = OnSensor qid"
| "listener_of (GetWaterTemp pin timeout) qid = OnSensor qid"

fun answer_of :: "operation \<Rightarrow> nat list \<Rightarrow> qvalue promise" where
  "answer_of (BoardVersion timeout) data = Resolved (VersionString (decodeVersion data))"
| "answer_of (GetDistanceByUltrasonic pin timeout) data =
     (if data = [] then Rejected NotAvailable
      else Resolved (SensorValue (decodeInt16FromTwo7bitBytes data)))"
| "answer_of (GetWaterTemp pin timeout) data =
     (if data = [] then Rejected NotAvailable
      else Resolved (SensorValue (decodeInt16FromTwo7bitBytes data)))"

text \<open>Events that are no response to a query on pin 6 or to the version query: another
  query, a response on another pin, the timer of the other query.\<close>

definition otherEvents :: "step list" where
  "otherEvents =
     [Call (GetWaterTemp 9 None), Response (UltrasonicDistanceReply 10) [0x10, 0x00],
      TimerFires 1]"

chapter \<open>Properties\<close>

section \<open>The decoder\<close>

lemma small_bit:
  assumes "b < 2 ^ 7" "7 \<le> n"
  shows "\<not> bit (b::nat) n"
proof -
  have "(2::nat) ^ 7 \<le> 2 ^ n"
    using assms(2) by (intro power_increasing) simp_all
  then have "b < 2 ^ n"
    using assms(1) by linarith
  then show ?thesis
    by (simp add: bit_iff_odd)
qed

lemma bit_FF: "bit (0xFF :: int) n \<longleftrightarrow> n < 8"
proof -
  have e: "(0xFF :: int) = mask 8"
    by (simp add: mask_eq_exp_minus_1)
  show ?thesis
    unfolding e bit_mask_iff by simp
qed

lemma bit_C0: "bit (0xC0 :: int) n \<longleftrightarrow> n = 6 \<or> n = 7"
proof -
  have e: "(0xC0 :: int) = push_bit 6 (mask 2)"
    by (simp add: mask_eq_exp_minus_1 push_bit_eq_mult)
  show ?thesis
    unfolding e bit_push_bit_iff bit_mask_iff by auto
qed

lemma signed_drop_bit_6_nonzero:
  assumes "b < 2 ^ 7"
  shows "signed_drop_bit 6 (word_of_nat b :: 32 word) \<noteq> 0 \<longleftrightarrow> bit b 6"
proof -
  have "signed_drop_bit 6 (word_of_nat b :: 32 word) = 0 \<longleftrightarrow> \<not> bit b 6"
  proof
    assume z: "signed_drop_bit 6 (word_of_nat b :: 32 word) = 0"
    have "bit (signed_drop_bit 6 (word_of_nat b :: 32 word)) 0 = bit b 6"
      by (simp add: bit_signed_drop_bit_iff bit_of_nat_iff)
    then show "\<not> bit b 6"
      using z by simp
  next
    assume nb: "\<not> bit b 6"
    show "signed_drop_bit 6 (word_of_nat b :: 32 word) = 0"
    proof (rule bit_eqI)
      fix n
      have "\<not> bit b (6 + n)"
        using nb small_bit[OF assms, of "6 + n"] by (cases n) auto
      moreover have "\<not> bit b 31"
        using small_bit[OF assms, of 31] by simp
      ultimately show "bit (signed_drop_bit 6 (word_of_nat b :: 32 word)) n = bit (0 :: 32 word) n"
        by (simp add: bit_signed_drop_bit_iff bit_of_nat_iff)
    qed
  qed
  then show ?thesis
    by blast
qed

lemma byteAt_pair:
  "byteAt [b0, b1] 0 = word_of_nat b0" "byteAt [b0, b1] (Suc 0) = word_of_nat b1"
  by (simp_all add: byteAt_def js_nth_def)

lemma decode_sign_extend:
  assumes "b0 < 2 ^ 7" "b1 < 2 ^ 7"
  shows "decodeInt16FromTwo7bitBytes [b0, b1] = signed_take_bit 13 (int b0 + 128 * int b1)"
proof -
  define w0 :: "32 word" where "w0 = word_of_nat b0"
  define w1 :: "32 word" where "w1 = word_of_nat b1"
  define lsb :: "32 word" where "lsb = (w0 OR push_bit 7 w1) AND 0xFF"
  define msb :: "32 word" where
    "msb = signed_drop_bit 1 w1 OR (if signed_drop_bit 6 w1 \<noteq> 0 then 0xC0 else 0)"
  have s0: "\<not> bit b0 k" if "7 \<le> k" for k
    using small_bit[OF assms(1) that] .
  have s1: "\<not> bit b1 k" if "7 \<le> k" for k
    using small_bit[OF assms(2) that] .
  have W0: "bit w0 k \<longleftrightarrow> bit b0 k" for k
    using s0[of k] by (cases "k < 32") (auto simp add: w0_def bit_of_nat_iff)
  have W1: "bit w1 k \<longleftrightarrow> bit b1 k" for k
    using s1[of k] by (cases "k < 32") (auto simp add: w1_def bit_of_nat_iff)
  have L: "bit lsb k \<longleftrightarrow> k < 8 \<and> (bit b0 k \<or> (7 \<le> k \<and> bit b1 (k - 7)))" for k
    unfolding lsb_def bit_and_iff bit_or_iff bit_push_bit_iff W0 W1 bit_numeral_word_iff bit_FF
    by auto
  have S6: "signed_drop_bit 6 w1 \<noteq> 0 \<longleftrightarrow> bit b1 6"
    unfolding w1_def using signed_drop_bit_6_nonzero[OF assms(2)] .
  have B1: "bit (signed_drop_bit 1 w1) k \<longleftrightarrow> k < 31 \<and> bit b1 (Suc k)" for k
    unfolding bit_signed_drop_bit_iff W1 using s1[of 31] s1[of "Suc k"] by auto
  have BC: "bit (0xC0 :: 32 word) k \<longleftrightarrow> k = 6 \<or> k = 7" for k
    unfolding bit_numeral_word_iff bit_C0 by auto
  have M: "bit msb k \<longleftrightarrow> (k < 31 \<and> bit b1 (Suc k)) \<or> (bit b1 6 \<and> (k = 6 \<or> k = 7))" for k
  proof (cases "bit b1 6")
    case True
    then have "msb = signed_drop_bit 1 w1 OR 0xC0"
      using S6 by (simp add: msb_def)
    then have "bit msb k \<longleftrightarrow> bit (signed_drop_bit 1 w1) k \<or> bit (0xC0 :: 32 word) k"
      by (simp only: bit_or_iff)
    then show ?thesis
      using True unfolding B1 BC by blast
  next
    case False
    then have "msb = signed_drop_bit 1 w1"
      using S6 by (simp add: msb_def)
    then have "bit msb k \<longleftrightarrow> bit (signed_drop_bit 1 w1) k"
      by simp
    then show ?thesis
      using False unfolding B1 by blast
  qed
  have D: "decodeInt16FromTwo7bitBytes [b0, b1]
      = sint (word_cat (ucast msb :: 8 word) (ucast lsb :: 8 word) :: 16 word)"
    by (simp add: decodeInt16FromTwo7bitBytes_def byteAt_pair Let_def lsb_def msb_def
        w0_def w1_def)
  have R: "bit (decodeInt16FromTwo7bitBytes [b0, b1]) n \<longleftrightarrow>
      (16 \<le> n \<and> bit msb 7) \<or> (n < 16 \<and> (if n < 8 then bit lsb n else bit msb (n - 8)))" for n
    unfolding D bit_sint_iff bit_word_cat_iff bit_ucast_iff
    by auto
  have v: "int b0 + 128 * int b1 = int b0 OR push_bit 7 (int b1)"
  proof -
    have "int b0 + push_bit 7 (int b1) = int b0 OR push_bit 7 (int b1)"
    proof (rule disjunctive_add)
      fix n
      show "\<not> bit (int b0) n \<or> \<not> bit (push_bit 7 (int b1)) n"
        using s0[of n] by (auto simp: bit_push_bit_iff bit_of_nat_iff_bit)
    qed
    then show ?thesis
      by (simp add: push_bit_eq_mult)
  qed
  have V: "bit (signed_take_bit 13 (int b0 + 128 * int b1)) n \<longleftrightarrow>
      bit b0 (min 13 n) \<or> (7 \<le> min 13 n \<and> bit b1 (min 13 n - 7))" for n
    unfolding v bit_signed_take_bit_iff bit_or_iff bit_push_bit_iff bit_of_nat_iff_bit
    by simp
  show ?thesis
  proof (rule bit_eqI)
    fix n :: nat
    consider "n < 7" | "n = 7" | "8 \<le> n \<and> n \<le> 13" | "n = 14" | "n = 15" | "16 \<le> n"
      by linarith
    then show "bit (decodeInt16FromTwo7bitBytes [b0, b1]) n
        = bit (signed_take_bit 13 (int b0 + 128 * int b1)) n"
    proof cases
      case 1
      show ?thesis
        unfolding R V L M using 1 s0[of n] by (auto simp add: min_def)
    next
      case 2
      show ?thesis
        unfolding R V L M using 2 s0[of 7] by (auto simp add: min_def)
    next
      case 3
      then have "Suc (n - 8) = n - 7"
        by linarith
      with 3 show ?thesis
        unfolding R V L M using s0[of n] by (auto simp add: min_def)
    next
      case 4
      show ?thesis
        unfolding R V L M using 4 s0[of 13] s1[of 7] by (auto simp add: min_def)
    next
      case 5
      show ?thesis
        unfolding R V L M using 5 s0[of 13] s1[of 8] by (auto simp add: min_def)
    next
      case 6
      show ?thesis
        unfolding R V L M using 6 s0[of 13] s1[of 8] by (auto simp add: min_def)
    qed
  qed
qed

text \<open>
  Claim C7.  For a payload of two 7-bit bytes (each below 128) the decoder returns the
  14-bit value made of the seven bits of each byte, the first byte low, sign-extended
  from bit 13: a value from -8192 to 8191.  At \<^verbatim>\<open>[0x7F, 0x01]\<close> the 14-bit value
  is 0xFF, bit 13 is clear, and the result is 255.
\<close>

theorem decodeInt16FromTwo7bitBytes_sign_extends:
  assumes "b0 < 128" "b1 < 128"
  shows "decodeInt16FromTwo7bitBytes [b0, b1] = signed_take_bit 13 (int b0 + 128 * int b1)
       \<and> - 8192 \<le> decodeInt16FromTwo7bitBytes [b0, b1]
       \<and> decodeInt16FromTwo7bitBytes [b0, b1] < 8192"
proof -
  have "decodeInt16FromTwo7bitBytes [b0, b1] = signed_take_bit 13 (int b0 + 128 * int b1)"
    using decode_sign_extend[of b0 b1] assms by simp
  then show ?thesis
    using signed_take_bit_int_greater_eq_minus_exp[of 13 "int b0 + 128 * int b1"]
      signed_take_bit_int_less_exp[of 13 "int b0 + 128 * int b1"]
    by simp
qed

theorem decodeInt16FromTwo7bitBytes_sign_extends_witness:
  "(0x7F :: nat) < 128 \<and> (0x01 :: nat) < 128 \<and> decodeInt16FromTwo7bitBytes [0x7F, 0x01] = 255"
  using decodeInt16FromTwo7bitBytes_sign_extends[of "0x7F" "0x01"]
  by (simp add: signed_take_bit_eq_take_bit_minus)

section \<open>The gamma table\<close>

lemma gamma_nth:
  "v < 256 \<Longrightarrow> neoPixelGammaTable ! v = \<lfloor>(real v / 255) powr 2.8 * 255 + 0.5\<rfloor>"
  by (simp add: neoPixelGammaTable_def gammaTableOf_def)

lemma gamma_length: "length neoPixelGammaTable = 256"
  by (simp add: neoPixelGammaTable_def gammaTableOf_def)

lemma gamma_round:
  "v < 256 \<Longrightarrow> neoPixelGammaTable ! v = round (255 * (real v / 255) powr 2.8)"
  by (simp add: gamma_nth round_def mult.commute)

lemma gamma_mono:
  assumes "u \<le> v" "v < 256"
  shows "neoPixelGammaTable ! u \<le> neoPixelGammaTable ! v"
proof -
  have "(real u / 255) powr 2.8 \<le> (real v / 255) powr 2.8"
    using assms(1) by (intro powr_mono2) simp_all
  then have "(real u / 255) powr 2.8 * 255 + 0.5 \<le> (real v / 255) powr 2.8 * 255 + 0.5"
    by simp
  then have "\<lfloor>(real u / 255) powr 2.8 * 255 + 0.5\<rfloor> \<le> \<lfloor>(real v / 255) powr 2.8 * 255 + 0.5\<rfloor>"
    by (rule floor_mono)
  then show ?thesis
    using assms by (simp add: gamma_nth)
qed

text \<open>
  Claim C8.  The table has 256 entries; entry \<open>v\<close> is \<open>255 (v/255)\<^bsup>2.8\<^esup>\<close> rounded
  to the nearest integer; the entries do not decrease; the first is 0 and the last
  is 255.
\<close>

theorem neoPixelGammaTable_rounds_and_is_monotone:
  "length neoPixelGammaTable = 256
   \<and> (\<forall>v<256. neoPixelGammaTable ! v = round (255 * (real v / 255) powr 2.8))
   \<and> (\<forall>u v. u \<le> v \<and> v < 256 \<longrightarrow> neoPixelGammaTable ! u \<le> neoPixelGammaTable ! v)
   \<and> neoPixelGammaTable ! 0 = 0
   \<and> neoPixelGammaTable ! 255 = 255"
  using gamma_length gamma_round gamma_mono by (simp add: gamma_nth)

theorem neoPixelGammaTable_rounds_and_is_monotone_witness:
  "(128::nat) < 256
   \<and> neoPixelGammaTable ! 128 = round (255 * (real 128 / 255) powr 2.8)
   \<and> (100::nat) \<le> 200 \<and> (200::nat) < 256
   \<and> neoPixelGammaTable ! 100 \<le> neoPixelGammaTable ! 200"
proof -
  have r: "\<forall>v<256. neoPixelGammaTable ! v = round (255 * (real v / 255) powr 2.8)"
    and m: "\<forall>u v. u \<le> v \<and> v < 256 \<longrightarrow> neoPixelGammaTable ! u \<le> neoPixelGammaTable ! v"
    using neoPixelGammaTable_rounds_and_is_monotone by blast+
  have "neoPixelGammaTable ! 128 = round (255 * (real 128 / 255) powr 2.8)"
    using r by (metis numeral_less_iff semiring_norm(76,78,79))
  moreover have "neoPixelGammaTable ! 100 \<le> neoPixelGammaTable ! 200"
    using m by simp
  ultimately show ?thesis
    by simp
qed

text \<open>
  The entries themselves.  Entry \<open>v > 0\<close> is \<open>k\<close> when
  \<open>k - 1/2 \<le> 255 (v/255)\<^bsup>14/5\<^esup> < k + 1/2\<close>; the written-out table passes the
  narrower test of \<open>gammaEntryOk\<close>, which is a comparison of integers.
\<close>

lemma scaled_power:
  fixes c :: real
  shows "(c / 2000) ^ 5 * 2000 ^ 5 = c ^ 5"
proof -
  have "(c / 2000) * 2000 = c"
    by simp
  then show ?thesis
    by (metis power_mult_distrib)
qed

lemma gamma_entry_margin:
  assumes "0 < v" "gammaEntryOk v k"
  shows "real_of_int k - 999 / 2000 \<le> (real v / 255) powr 2.8 * 255
       \<and> (real v / 255) powr 2.8 * 255 \<le> real_of_int k + 999 / 2000"
proof -
  define x where "x = real v / 255"
  define y where "y = x powr 2.8 * 255"
  have x0: "0 < x"
    using assms(1) by (simp add: x_def)
  have y0: "0 < y"
    using x0 by (simp add: y_def)
  have "y powr 5 = (x powr 2.8) powr 5 * 255 powr 5"
    by (simp add: y_def powr_mult)
  also have "(x powr 2.8) powr 5 = x powr 14"
    by (simp add: powr_powr)
  finally have y5: "y ^ 5 = x ^ 14 * 255 ^ 5"
    using x0 y0 by simp
  have a1: "0 \<le> k"
    and a2: "(2000 * k - 999) ^ 5 * 255 ^ 9 \<le> 2000 ^ 5 * int v ^ 14"
    and a3: "2000 ^ 5 * int v ^ 14 \<le> (2000 * k + 999) ^ 5 * 255 ^ 9"
    using assms(2) by (simp_all add: gammaEntryOk_def)
  have x14: "x ^ 14 * 255 ^ 5 * 255 ^ 9 = real v ^ 14"
    by (simp add: x_def power_divide)
  have lo: "real_of_int k - 999 / 2000 \<le> y"
  proof (rule ccontr)
    assume "\<not> real_of_int k - 999 / 2000 \<le> y"
    then have "y < (2000 * real_of_int k - 999) / 2000"
      by simp
    then have "y ^ 5 < ((2000 * real_of_int k - 999) / 2000) ^ 5"
      using y0 by (intro power_strict_mono) simp_all
    then have "y ^ 5 * 2000 ^ 5 < ((2000 * real_of_int k - 999) / 2000) ^ 5 * 2000 ^ 5"
      by simp
    then have "y ^ 5 * 2000 ^ 5 < (2000 * real_of_int k - 999) ^ 5"
      by (simp only: scaled_power)
    then have "y ^ 5 * 2000 ^ 5 * 255 ^ 9 < (2000 * real_of_int k - 999) ^ 5 * 255 ^ 9"
      by simp
    moreover have "y ^ 5 * 2000 ^ 5 * 255 ^ 9 = 2000 ^ 5 * real v ^ 14"
      using x14 y5 by (simp add: mult.commute mult.left_commute)
    ultimately have "2000 ^ 5 * real v ^ 14 < (2000 * real_of_int k - 999) ^ 5 * 255 ^ 9"
      by simp
    then have "real_of_int (2000 ^ 5 * int v ^ 14) < real_of_int ((2000 * k - 999) ^ 5 * 255 ^ 9)"
      by simp
    then have "2000 ^ 5 * int v ^ 14 < (2000 * k - 999) ^ 5 * 255 ^ 9"
      by (simp only: of_int_less_iff)
    then show False
      using a2 by simp
  qed
  have hi: "y \<le> real_of_int k + 999 / 2000"
  proof (rule ccontr)
    assume "\<not> y \<le> real_of_int k + 999 / 2000"
    then have "(2000 * real_of_int k + 999) / 2000 < y"
      by simp
    moreover have "0 \<le> (2000 * real_of_int k + 999) / 2000"
      using a1 by simp
    ultimately have "((2000 * real_of_int k + 999) / 2000) ^ 5 < y ^ 5"
      by (intro power_strict_mono) simp_all
    then have "((2000 * real_of_int k + 999) / 2000) ^ 5 * 2000 ^ 5 < y ^ 5 * 2000 ^ 5"
      by simp
    then have "(2000 * real_of_int k + 999) ^ 5 < y ^ 5 * 2000 ^ 5"
      by (simp only: scaled_power)
    then have "(2000 * real_of_int k + 999) ^ 5 * 255 ^ 9 < y ^ 5 * 2000 ^ 5 * 255 ^ 9"
      by simp
    moreover have "y ^ 5 * 2000 ^ 5 * 255 ^ 9 = 2000 ^ 5 * real v ^ 14"
      using x14 y5 by (simp add: mult.commute mult.left_commute)
    ultimately have "(2000 * real_of_int k + 999) ^ 5 * 255 ^ 9 < 2000 ^ 5 * real v ^ 14"
      by simp
    then have "real_of_int ((2000 * k + 999) ^ 5 * 255 ^ 9) < real_of_int (2000 ^ 5 * int v ^ 14)"
      by simp
    then have "(2000 * k + 999) ^ 5 * 255 ^ 9 < 2000 ^ 5 * int v ^ 14"
      by (simp only: of_int_less_iff)
    then show False
      using a3 by simp
  qed
  show ?thesis
    using lo hi by (simp add: y_def x_def)
qed

lemma gamma_checks: "list_all (\<lambda>v. gammaEntryOk (Suc v) (gammaLiteral ! Suc v)) [0..<255]"
  by code_simp

lemma gamma_margin:
  assumes "v < 256"
  shows "real_of_int (gammaLiteral ! v) - 999 / 2000 \<le> (real v / 255) powr 2.8 * 255
       \<and> (real v / 255) powr 2.8 * 255 \<le> real_of_int (gammaLiteral ! v) + 999 / 2000"
proof (cases v)
  case 0
  then show ?thesis
    by (simp add: gammaLiteral_def)
next
  case (Suc u)
  then have "u \<in> set [0..<255]"
    using assms by simp
  then have "gammaEntryOk (Suc u) (gammaLiteral ! Suc u)"
    using gamma_checks unfolding list_all_iff by blast
  then show ?thesis
    using gamma_entry_margin[of v "gammaLiteral ! v"] Suc by simp
qed

text \<open>
  An evaluation of the expression that is off by less than 1/2000 gives the same
  entry.
\<close>

lemma gamma_robust:
  assumes "v < 256" "\<bar>e\<bar> < 1 / 2000"
  shows "\<lfloor>(real v / 255) powr 2.8 * 255 + e + 0.5\<rfloor> = gammaLiteral ! v"
proof -
  have "real_of_int (gammaLiteral ! v) \<le> (real v / 255) powr 2.8 * 255 + e + 0.5"
    and "(real v / 255) powr 2.8 * 255 + e + 0.5 < real_of_int (gammaLiteral ! v) + 1"
    using gamma_margin[OF assms(1)] assms(2) by linarith+
  then show ?thesis
    by (intro floor_unique)
qed

lemma gamma_literal_nth:
  assumes "v < 256"
  shows "neoPixelGammaTable ! v = gammaLiteral ! v"
  using gamma_robust[OF assms, of 0] assms by (simp add: gamma_nth)

lemma gamma_literal: "neoPixelGammaTable = gammaLiteral"
proof (rule nth_equalityI)
  show "length neoPixelGammaTable = length gammaLiteral"
    by (simp add: gamma_length gammaLiteral_def)
next
  fix i
  assume "i < length neoPixelGammaTable"
  then have "i < 256"
    by (simp add: gamma_length)
  then show "neoPixelGammaTable ! i = gammaLiteral ! i"
    by (rule gamma_literal_nth)
qed

section \<open>Teardown\<close>

lemma releaseBoard_version: "version (releaseBoard b) = version b"
  by (simp add: releaseBoard_def log_def Let_def split: option.splits)

text \<open>What \<^verbatim>\<open>releaseBoard\<close> does reset, and the two events it ends with.\<close>

lemma releaseBoard_resets:
  "state (releaseBoard b) = Disconnect
   \<and> neoPixel (releaseBoard b) = []
   \<and> oneWireDevices (releaseBoard b) = None
   \<and> firmata (releaseBoard b) = None
   \<and> board_transport (releaseBoard b) = None
   \<and> extensionId (releaseBoard b) = None
   \<and> (\<exists>es. effects (releaseBoard b) = effects b @ es @ [Emit ''disconnect'', Emit ''RELEASED''])"
  by (simp add: releaseBoard_def log_def Let_def split: option.splits)

text \<open>The two ways into \<^verbatim>\<open>releaseBoard\<close> leave the version as it is, too.\<close>

lemma disconnect_keeps_version:
  assumes "disconnect b = Inr b'"
  shows "version b' = version b"
  using assms
  by (auto simp add: disconnect_def releaseBoard_version log_def split: if_splits option.splits)

lemma handleDisconnectError_keeps_version:
  assumes "handleDisconnectError b error = Inr b'"
  shows "version b' = version b"
proof (cases "state b = Disconnect")
  case True
  then show ?thesis
    using assms by (simp add: handleDisconnectError_def)
next
  case False
  then obtain b0 where "disconnect b0 = Inr b'" "version b0 = version b"
    using assms by (simp add: handleDisconnectError_def Let_def log_def)
  then show ?thesis
    using disconnect_keeps_version by simp
qed

text \<open>
  Claim C3.  The claim has \<^verbatim>\<open>version\<close> null after teardown.  \<^verbatim>\<open>releaseBoard\<close>
  does not assign \<^verbatim>\<open>this.version\<close>: a board whose version was 2.1.0 before the
  teardown has version 2.1.0 after it.
\<close>

theorem releaseBoard_keeps_version:
  "version (releaseBoard versionedBoard) = Some \<lparr>vtype = 2, major = 1, minor = 0\<rparr>"
  by (simp add: releaseBoard_version versionedBoard_def)

section \<open>digitalWrite\<close>

text \<open>
  Claim C10.  On a connected board and a pin of the pin table: where the value the
  table holds for the pin is the value asked for, \<^verbatim>\<open>digitalWrite\<close> leaves the board
  as it is (no call on the library, no change of mode); where it differs, the
  pin is set to output mode and then the value is written, and the table holds both.
\<close>

theorem digitalWrite_same_value_is_silent:
  assumes "firmata b = Some f" "pin < length (pins f)"
  shows "(pin_value (pins f ! pin) = v \<longrightarrow> digitalWrite b pin v enqueue = Inr b)
       \<and> (pin_value (pins f ! pin) \<noteq> v \<longrightarrow>
            (\<exists>b'. digitalWrite b pin v enqueue = Inr b'
              \<and> effects b' = effects b @ [PinMode pin (OUTPUT (MODES f)), DigitalWrite pin v enqueue]
              \<and> (\<exists>f'. firmata b' = Some f'
                    \<and> pin_mode (pins f' ! pin) = Some (OUTPUT (MODES f))
                    \<and> pin_value (pins f' ! pin) = v)))"
  using assms
  by (simp add: digitalWrite_def firmata_digitalWrite_def firmata_pinMode_def log_def)

theorem digitalWrite_same_value_is_silent_witness:
  "digitalWrite exampleBoard 3 0 False = Inr exampleBoard
   \<and> (\<exists>b'. digitalWrite exampleBoard 3 1 False = Inr b'
         \<and> effects b' = [PinMode 3 1, DigitalWrite 3 1 False])"
proof -
  have f: "firmata exampleBoard = Some exampleFirmata"
    by (simp add: exampleBoard_def)
  have l: "3 < length (pins exampleFirmata)"
    by (simp add: exampleFirmata_def)
  have v: "pin_value (pins exampleFirmata ! 3) = 0"
    by (simp add: exampleFirmata_def)
  have e: "effects exampleBoard = []"
    by (simp add: exampleBoard_def constructor_def)
  have o: "OUTPUT (MODES exampleFirmata) = 1"
    by (simp add: exampleFirmata_def exampleModes_def)
  show ?thesis
    using digitalWrite_same_value_is_silent[OF f l, of 0 False]
      digitalWrite_same_value_is_silent[OF f l, of 1 False]
    by (simp add: v e o) blast
qed

section \<open>OneWire\<close>

text \<open>
  Claim C6.  On a pin that is not in one-wire mode, a search that finds no device
  rejects with "no device".  The pin table and the device cache stay as they were, so
  the pin is still not in one-wire mode, and the next call on the pin configures the
  bus and searches again, with the outcome the first call would have had on the same
  answer.
\<close>

theorem searchOneWireDevices_no_device:
  assumes "firmata b = Some f" "pin < length (pins f)"
    and "pin_mode (pins f ! pin) \<noteq> Some (ONEWIRE (MODES f))"
  shows "\<exists>b'. searchOneWireDevices b pin (Some (Founds [])) = (Rejected NoDevice, b')
          \<and> firmata b' = Some f
          \<and> oneWireDevices b' = oneWireDevices b
          \<and> effects b' = effects b @ [SendOneWireConfig pin True, SendOneWireSearch pin]
          \<and> (\<forall>reply. \<exists>b'' es.
                searchOneWireDevices b' pin reply = (fst (searchOneWireDevices b pin reply), b'')
                \<and> effects b'' = effects b' @ [SendOneWireConfig pin True, SendOneWireSearch pin] @ es)"
  using assms
  by (auto simp add: searchOneWireDevices_def firmata_pinMode_def log_def Let_def
      split: option.splits search_reply.splits)

theorem searchOneWireDevices_no_device_witness:
  "\<exists>b'. searchOneWireDevices exampleBoard 10 (Some (Founds [])) = (Rejected NoDevice, b')
      \<and> firmata b' = firmata exampleBoard
      \<and> effects b' = [SendOneWireConfig 10 True, SendOneWireSearch 10]
      \<and> (\<exists>b''. searchOneWireDevices b' 10 (Some (Founds [deviceA]))
              = (Resolved (Some [deviceA]), b''))"
proof -
  have f: "firmata exampleBoard = Some exampleFirmata"
    by (simp add: exampleBoard_def)
  have l: "10 < length (pins exampleFirmata)"
    by (simp add: exampleFirmata_def)
  have m: "pin_mode (pins exampleFirmata ! 10) \<noteq> Some (ONEWIRE (MODES exampleFirmata))"
    by (simp add: exampleFirmata_def)
  have e: "effects exampleBoard = []"
    by (simp add: exampleBoard_def constructor_def)
  have s: "fst (searchOneWireDevices exampleBoard 10 (Some (Founds [deviceA])))
      = Resolved (Some [deviceA])"
    by (simp add: searchOneWireDevices_def f l exampleFirmata_def exampleModes_def
        firmata_pinMode_def log_def Let_def)
  show ?thesis
    using searchOneWireDevices_no_device[OF f l m] s
    by (simp add: f e) metis
qed

text \<open>
  The device cache is one field of the board, not a field per pin: a search on one pin
  replaces what a search on another pin found.
\<close>

lemma search_then_other_pin:
  assumes "firmata b = Some f" "pinA < length (pins f)" "pinB < length (pins f)" "pinA \<noteq> pinB"
    and "pin_mode (pins f ! pinA) = Some (ONEWIRE (MODES f))"
    and "pin_mode (pins f ! pinB) \<noteq> Some (ONEWIRE (MODES f))"
    and "searchOneWireDevices b pinB (Some (Founds (d # ds))) = (r, b')"
  shows "fst (searchOneWireDevices b' pinA reply) = Resolved (Some (d # ds))"
  using assms
  by (auto simp add: searchOneWireDevices_def firmata_pinMode_def log_def Let_def
      split: option.splits search_reply.splits)

text \<open>
  Claim C5.  The claim has a read on pin A use the device found on pin A.  After a
  search on pin 10 that finds device A and a search on pin 11 that finds device B, the
  read on pin 10 is sent to device B.
\<close>

theorem oneWireRead_uses_other_pins_device:
  "(case searchOneWireDevices exampleBoard 10 (Some (Founds [deviceA])) of (r1, b1) \<Rightarrow>
    case searchOneWireDevices b1 11 (Some (Founds [deviceB])) of (r2, b2) \<Rightarrow>
    case oneWireRead b2 10 2 None None (Some (ReadData [0, 0])) of (r3, b3) \<Rightarrow>
      r1 = Resolved (Some [deviceA]) \<and> r2 = Resolved (Some [deviceB]) \<and> r3 = Resolved [0, 0]
      \<and> last (effects b3) = SendOneWireRead 10 (Some deviceB) 2)"
  by (simp add: searchOneWireDevices_def oneWireRead_def first_device_def timeout_or_def
      exampleBoard_def exampleFirmata_def exampleModes_def constructor_def
      firmata_pinMode_def log_def Let_def)

text \<open>The write and the write-and-read on pin 10 go to device B as well.\<close>

lemma oneWireWrite_uses_other_pins_device:
  "(case searchOneWireDevices exampleBoard 10 (Some (Founds [deviceA])) of (r1, b1) \<Rightarrow>
    case searchOneWireDevices b1 11 (Some (Founds [deviceB])) of (r2, b2) \<Rightarrow>
      last (effects (snd (oneWireWrite b2 10 [0x44] None)))
        = SendOneWireWrite 10 (Some deviceB) [0x44]
      \<and> last (effects (snd (oneWireWriteAndRead b2 10 [0xBE] 9 None None (Some (ReadData [])))))
        = SendOneWireWriteAndRead 10 (Some deviceB) [0xBE] 9)"
  by (simp add: searchOneWireDevices_def oneWireWrite_def oneWireWriteAndRead_def first_device_def
      timeout_or_def exampleBoard_def exampleFirmata_def exampleModes_def constructor_def
      firmata_pinMode_def log_def Let_def)

section \<open>Bitwise operators on small numbers\<close>

lemma bit_7F: "bit (0x7F :: int) n \<longleftrightarrow> n < 7"
proof -
  have e: "(0x7F :: int) = mask 7"
    by (simp add: mask_eq_exp_minus_1)
  show ?thesis
    unfolding e bit_mask_iff by simp
qed

lemma js_and_mask:
  "js_and (Num a) (Num FIRMATA_7BIT_MASK) = a mod 128"
proof -
  have "sint (word_of_int a AND 0x7F :: 32 word) = take_bit 7 a"
  proof (rule bit_eqI)
    fix n
    show "bit (sint (word_of_int a AND 0x7F :: 32 word)) n = bit (take_bit 7 a) n"
      unfolding bit_sint_iff bit_and_iff bit_take_bit_iff bit_word_of_int_iff bit_numeral_word_iff bit_7F
      by auto
  qed
  then show ?thesis
    by (simp add: js_and_def FIRMATA_7BIT_MASK_def take_bit_eq_mod)
qed

lemma js_and_shr_mask:
  "js_and (Num (js_shr (Num a) 7)) (Num FIRMATA_7BIT_MASK) = a div 128 mod 128"
proof -
  have "sint (signed_drop_bit 7 (word_of_int a :: 32 word) AND 0x7F) = take_bit 7 (drop_bit 7 a)"
  proof (rule bit_eqI)
    fix n
    show "bit (sint (signed_drop_bit 7 (word_of_int a :: 32 word) AND 0x7F)) n
        = bit (take_bit 7 (drop_bit 7 a)) n"
      unfolding bit_sint_iff bit_and_iff bit_take_bit_iff bit_drop_bit_eq bit_signed_drop_bit_iff
        bit_word_of_int_iff bit_numeral_word_iff bit_7F
      by (auto simp add: add.commute)
  qed
  then show ?thesis
    by (simp add: js_and_def js_shr_def FIRMATA_7BIT_MASK_def take_bit_eq_mod drop_bit_eq_div)
qed

lemma js_shr_mod:
  "js_shr (Num a) 7 mod 128 = a div 128 mod 128"
  using js_and_shr_mask[of a] by (simp add: js_and_mask)

section \<open>The strip registry\<close>

lemma config_strips:
  assumes "firmata b = Some f" "pin < length (pins f)"
  shows "\<exists>b'. neoPixelConfigStrip K b pin len = Inr b'
          \<and> neoPixel b' = filter (\<lambda>aStrip. strip_pin aStrip \<noteq> pin) (neoPixel b)
               @ [case find (\<lambda>aStrip. strip_pin aStrip = pin) (neoPixel b) of
                    Some s \<Rightarrow> s\<lparr>strip_length := len\<rparr>
                  | None \<Rightarrow> \<lparr>strip_pin = pin, strip_length = len, strip_colors = None\<rparr>]"
  using assms
  by (simp add: neoPixelConfigStrip_def sysexCommand_def log_def Let_def split: option.splits)




lemma config_Inr:
  assumes "neoPixelConfigStrip K b pin len = Inr b'"
  shows "\<exists>f. firmata b = Some f \<and> pin < length (pins f)"
  using assms
  by (auto simp add: neoPixelConfigStrip_def split: option.splits if_splits)

lemma config_firmata:
  assumes "neoPixelConfigStrip K b pin len = Inr b'"
  shows "firmata b' \<noteq> None"
  using assms
  by (auto simp add: neoPixelConfigStrip_def sysexCommand_def log_def Let_def
      split: option.splits if_splits)

lemma config_distinct:
  assumes "neoPixelConfigStrip K b pin len = Inr b'" "distinct (map strip_pin (neoPixel b))"
  shows "distinct (map strip_pin (neoPixel b'))"
proof -
  obtain f where f: "firmata b = Some f" "pin < length (pins f)"
    using config_Inr[OF assms(1)] by blast
  have n: "neoPixel b' = filter (\<lambda>aStrip. strip_pin aStrip \<noteq> pin) (neoPixel b)
               @ [case find (\<lambda>aStrip. strip_pin aStrip = pin) (neoPixel b) of
                    Some s \<Rightarrow> s\<lparr>strip_length := len\<rparr>
                  | None \<Rightarrow> \<lparr>strip_pin = pin, strip_length = len, strip_colors = None\<rparr>]"
    using config_strips[OF f, of K len] assms(1) by simp
  have l: "strip_pin (case find (\<lambda>aStrip. strip_pin aStrip = pin) (neoPixel b) of
                    Some s \<Rightarrow> s\<lparr>strip_length := len\<rparr>
                  | None \<Rightarrow> \<lparr>strip_pin = pin, strip_length = len, strip_colors = None\<rparr>) = pin"
    by (auto simp add: find_Some_iff split: option.splits)
  have "distinct (map strip_pin (filter (\<lambda>aStrip. strip_pin aStrip \<noteq> pin) (neoPixel b)))"
    using assms(2) by (simp add: distinct_map_filter)
  then show ?thesis
    unfolding n using l by auto
qed

lemma configureAll_distinct:
  assumes "configureAll K b calls = Inr b'" "distinct (map strip_pin (neoPixel b))"
  shows "distinct (map strip_pin (neoPixel b'))"
  using assms
proof (induction calls arbitrary: b)
  case Nil
  then show ?case
    by simp
next
  case (Cons c calls)
  obtain pin len where c: "c = (pin, len)"
    by (cases c)
  from Cons.prems(1) obtain b1 where b1: "neoPixelConfigStrip K b pin len = Inr b1"
    "configureAll K b1 calls = Inr b'"
    by (auto simp add: c andThen_def split: sum.splits)
  show ?case
    using Cons.IH[OF b1(2)] config_distinct[OF b1(1) Cons.prems(2)] by blast
qed

lemma configureAll_firmata:
  assumes "configureAll K b calls = Inr b'" "calls \<noteq> []"
  shows "firmata b' \<noteq> None"
  using assms
proof (induction calls arbitrary: b)
  case Nil
  then show ?case
    by simp
next
  case (Cons c calls)
  obtain pin len where c: "c = (pin, len)"
    by (cases c)
  from Cons.prems(1) obtain b1 where b1: "neoPixelConfigStrip K b pin len = Inr b1"
    "configureAll K b1 calls = Inr b'"
    by (auto simp add: c andThen_def split: sum.splits)
  show ?case
  proof (cases calls)
    case Nil
    then show ?thesis
      using b1 config_firmata by auto
  next
    case (Cons d ds)
    then show ?thesis
      using Cons.IH[OF b1(2)] by simp
  qed
qed

section \<open>The address of a pixel\<close>

lemma js_rem_max:
  assumes "0 < len"
  shows "js_max (Num 0) (js_rem (Num index) (Num (int len)))
       = Num (if index < 0 then 0 else index mod int len)"
proof -
  define r where "r = sgn index * (\<bar>index\<bar> mod int len)"
  have m: "js_max (Num 0) (js_rem (Num index) (Num (int len))) = Num (max 0 r)"
    using assms by (simp add: r_def)
  have p: "0 \<le> \<bar>index\<bar> mod int len"
    using assms by simp
  show ?thesis
  proof (cases "index < 0")
    case True
    then have "r \<le> 0"
      using p by (simp add: r_def mult_le_0_iff)
    then show ?thesis
      unfolding m using True by (simp add: max_def)
  next
    case False
    then have "r = index mod int len"
      by (cases "index = 0") (simp_all add: r_def)
    moreover have "0 \<le> index mod int len"
      using assms by simp
    ultimately show ?thesis
      unfolding m using False by (simp add: max_def)
  qed
qed

lemma addressLoop_settled:
  "pin \<notin> set (map strip_pin strips) \<Longrightarrow> addressLoop pin index strips (x, False) = (x, False)"
  by (induction strips) simp_all

lemma addressLoop_absent:
  "pin \<notin> set (map strip_pin strips) \<Longrightarrow>
   addressLoop pin index strips (Num a, True)
     = (Num (a + int (sum_list (map strip_length strips))), True)"
  by (induction strips arbitrary: a) simp_all

lemma addressLoop_present:
  assumes "distinct (map strip_pin strips)" "find (\<lambda>aStrip. strip_pin aStrip = pin) strips = Some s"
    and "0 < strip_length s"
  shows "addressLoop pin index strips (Num a, True)
       = (Num (a + int (sum_list (map strip_length (stripsBefore pin strips)))
                 + (if index < 0 then 0 else index mod int (strip_length s))), False)"
  using assms
proof (induction strips arbitrary: a)
  case Nil
  then show ?case
    by simp
next
  case (Cons t strips)
  show ?case
  proof (cases "strip_pin t = pin")
    case True
    then have ts: "t = s"
      using Cons.prems(2) by simp
    have "pin \<notin> set (map strip_pin strips)"
      using Cons.prems(1) True by auto
    then show ?thesis
      using True ts Cons.prems(3)
      by (simp add: stripsBefore_def js_rem_max addressLoop_settled
          del: js_rem.simps js_max.simps)
  next
    case False
    then have "find (\<lambda>aStrip. strip_pin aStrip = pin) strips = Some s"
      using Cons.prems(2) by simp
    moreover have "distinct (map strip_pin strips)"
      using Cons.prems(1) by simp
    ultimately show ?thesis
      using False Cons.IH[of "a + int (strip_length t)"] Cons.prems(3)
      by (simp add: stripsBefore_def add.assoc)
  qed
qed

lemma update_first_find_None:
  "find P xs = None \<Longrightarrow> update_first P g xs = xs"
  by (induction xs) (simp_all split: if_splits)

text \<open>
  A pin that has a strip.  The strips are those left by a sequence of
  \<^verbatim>\<open>neoPixelConfigStrip\<close> calls on a board with no strip, and the pin has a strip
  with at least one LED.  For an index that is not negative the address
  \<^verbatim>\<open>neoPixelSetColor\<close> computes is the sum of the lengths of the strips before the
  strip of the pin, plus \<open>index mod length\<close>; a negative index is sent as the
  first LED of the strip.  The frame carries the low fourteen bits of the address,
  seven in byte 2 and seven in byte 3.
\<close>

lemma neoPixelSetColor_address:
  assumes "neoPixel b0 = []" "configureAll K b0 calls = Inr b"
    and "find (\<lambda>aStrip. strip_pin aStrip = pin) (neoPixel b) = Some s" "0 < strip_length s"
  shows "\<exists>b' message.
           neoPixelSetColor K b pin color index = Inr b'
           \<and> effects b' = effects b @ [SysexCommand message]
           \<and> length message = 8
           \<and> message ! 2 = (int (sum_list (map strip_length (stripsBefore pin (neoPixel b))))
                              + (if index < 0 then 0 else index mod int (strip_length s))) mod 128
           \<and> message ! 3 = (int (sum_list (map strip_length (stripsBefore pin (neoPixel b))))
                              + (if index < 0 then 0 else index mod int (strip_length s))) div 128 mod 128"
proof -
  have d: "distinct (map strip_pin (neoPixel b))"
    using configureAll_distinct[OF assms(2)] assms(1) by simp
  have "calls \<noteq> []"
    using assms(1,2,3) by (cases calls) auto
  then obtain f where f: "firmata b = Some f"
    using configureAll_firmata[OF assms(2)] by auto
  define A where "A = int (sum_list (map strip_length (stripsBefore pin (neoPixel b))))
      + (if index < 0 then 0 else index mod int (strip_length s))"
  have loop: "addressLoop pin index (neoPixel b) (Num 0, True) = (Num A, False)"
    using addressLoop_present[OF d assms(3,4), of index 0] by (simp add: A_def)
  show ?thesis
    unfolding A_def[symmetric]
    by (simp add: neoPixelSetColor_def loop assms(3) sysexCommand_def f log_def Let_def
        setPixelMessage_def js_and_mask js_shr_mod)
qed

lemma twoStrips_eval:
  "\<exists>b. twoStrips = Inr b
     \<and> neoPixel b = [\<lparr>strip_pin = 3, strip_length = 5, strip_colors = None\<rparr>,
                     \<lparr>strip_pin = 7, strip_length = 2, strip_colors = None\<rparr>]
     \<and> firmata b \<noteq> None"
  by (simp add: twoStrips_def andThen_def neoPixelConfigStrip_def sysexCommand_def log_def Let_def
      exampleBoard_def exampleFirmata_def constructor_def)

text \<open>Strips of five and two LEDs at pins 3 and 7: index 1 on pin 7 is address 6.\<close>

lemma neoPixelSetColor_address_example:
  "lastAddress (andThen twoStrips (\<lambda>b. neoPixelSetColor exampleConstants b 7 (1, 2, 3) 1)) = [6, 0]"
proof -
  obtain b where b: "twoStrips = Inr b"
    "neoPixel b = [\<lparr>strip_pin = 3, strip_length = 5, strip_colors = None\<rparr>,
                   \<lparr>strip_pin = 7, strip_length = 2, strip_colors = None\<rparr>]"
    using twoStrips_eval by blast
  have e: "neoPixel exampleBoard = []"
    by (simp add: exampleBoard_def constructor_def)
  have c: "configureAll exampleConstants exampleBoard [(3, 5), (7, 2)] = Inr b"
    using b(1) by (simp add: twoStrips_def)
  have s: "find (\<lambda>aStrip. strip_pin aStrip = 7) (neoPixel b)
      = Some \<lparr>strip_pin = 7, strip_length = 2, strip_colors = None\<rparr>"
    by (simp add: b(2))
  have p: "0 < strip_length \<lparr>strip_pin = 7, strip_length = 2, strip_colors = None\<rparr>"
    by simp
  obtain b' message where m:
    "neoPixelSetColor exampleConstants b 7 (1, 2, 3) 1 = Inr b'"
    "effects b' = effects b @ [SysexCommand message]"
    "message ! 2 = 6" "message ! 3 = 0"
    using neoPixelSetColor_address[OF e c s p, of "(1, 2, 3)" 1]
    by (auto simp add: b(2) stripsBefore_def)
  show ?thesis
    by (simp add: b(1) andThen_def m lastAddress_def setPixelAddress_def del: One_nat_def)
qed

text \<open>
  The comment of \<^verbatim>\<open>neoPixelSetColor\<close> has index -1 stand for all the LEDs.  With
  strips of five and two LEDs at pins 3 and 7, index -1 on pin 7 is one frame, with
  address 5, the first LED of the strip; the remainder of mathematics would give 6,
  the remainder of JavaScript 4.
\<close>

lemma neoPixelSetColor_negative_index_example:
  "lastAddress (andThen twoStrips (\<lambda>b. neoPixelSetColor exampleConstants b 7 (1, 2, 3) (- 1)))
     = [5, 0]
   \<and> (5 + (- 1) mod 2 :: int) = 6
   \<and> js_add (Num 5) (js_rem (Num (- 1)) (Num 2)) = Num 4"
proof -
  obtain b where b: "twoStrips = Inr b"
    "neoPixel b = [\<lparr>strip_pin = 3, strip_length = 5, strip_colors = None\<rparr>,
                   \<lparr>strip_pin = 7, strip_length = 2, strip_colors = None\<rparr>]"
    "firmata b \<noteq> None"
    using twoStrips_eval by blast
  then obtain f where f: "firmata b = Some f"
    by auto
  have "lastAddress (neoPixelSetColor exampleConstants b 7 (1, 2, 3) (- 1)) = [5, 0]"
    by (simp add: neoPixelSetColor_def b(2) f sysexCommand_def log_def Let_def lastAddress_def
        setPixelAddress_def setPixelMessage_def js_and_mask js_shr_mod)
  then show ?thesis
    by (simp add: b(1) andThen_def)
qed

lemma find_snoc:
  "find P xs = None \<Longrightarrow> find P (xs @ [y]) = (if P y then Some y else None)"
  by (induction xs) (simp_all split: if_splits)

text \<open>
  A pin with no strip.  The loop ends before the strip is made, so the address is the
  sum of the lengths of all the strips, whatever the index is, while the color is cached
  at the index.
\<close>

lemma neoPixelSetColor_unconfigured:
  assumes "pin \<notin> set (map strip_pin (neoPixel b))" "firmata b = Some f" "pin < length (pins f)"
  shows "\<exists>b' config message.
           neoPixelSetColor K b pin color index = Inr b'
           \<and> effects b' = effects b @ [SysexCommand config, SysexCommand message]
           \<and> message ! 2 = int (sum_list (map strip_length (neoPixel b))) mod 128
           \<and> message ! 3 = int (sum_list (map strip_length (neoPixel b))) div 128 mod 128"
proof -
  have loop: "addressLoop pin index (neoPixel b) (Num 0, True)
      = (Num (int (sum_list (map strip_length (neoPixel b)))), True)"
    using addressLoop_absent[OF assms(1), of index 0] by simp
  have n: "find (\<lambda>aStrip. strip_pin aStrip = pin) (neoPixel b) = None"
    using assms(1) by (auto simp add: find_None_iff)
  have fl: "filter (\<lambda>aStrip. strip_pin aStrip \<noteq> pin) (neoPixel b) = neoPixel b"
    using assms(1) by (auto simp add: filter_id_conv)
  have fd: "find (\<lambda>aStrip. strip_pin aStrip = pin)
      (neoPixel b @ [\<lparr>strip_pin = pin, strip_length = len, strip_colors = None\<rparr>])
      = Some \<lparr>strip_pin = pin, strip_length = len, strip_colors = None\<rparr>" for len
    using n by (simp add: find_snoc)
  show ?thesis
    using assms(2,3)
    by (simp add: neoPixelSetColor_def loop neoPixelConfigStrip_def n fl fd sysexCommand_def
        log_def Let_def setPixelMessage_def js_and_mask js_shr_mod)
qed

lemma neoPixelSetColor_unconfigured_example:
  "lastAddress (neoPixelSetColor exampleConstants exampleBoard 5 (1, 2, 3) 1) = [0, 0]
   \<and> strips_of (neoPixelSetColor exampleConstants exampleBoard 5 (1, 2, 3) 1)
       = Inr [\<lparr>strip_pin = 5, strip_length = 3,
               strip_colors = Some [Undefined, Color (1, 2, 3), Undefined]\<rparr>]"
  by (simp add: neoPixelSetColor_def neoPixelConfigStrip_def sysexCommand_def log_def Let_def
      lastAddress_def setPixelAddress_def setPixelMessage_def js_and_mask js_shr_mod
      strips_of_def array_set_def exampleBoard_def exampleFirmata_def constructor_def
      numeral_3_eq_3)

text \<open>
  Claim C1.  The claim has the address be the sum of the lengths of the strips before
  the strip of the pin plus \<open>index mod length\<close>, also where the pin has no strip
  and is given one of the default length first.  With strips of five and two LEDs at
  pins 3 and 7 and no strip at pin 9, \<^verbatim>\<open>neoPixelSetColor(9, color, 1)\<close> makes the
  strip of three LEDs at pin 9 and caches the color at index 1 of it, but the frame
  has address 7, the first LED of the new strip, where the claim has
  \<open>7 + 1 mod 3 = 8\<close>.
\<close>

theorem neoPixelSetColor_unconfigured_ignores_index:
  "lastAddress (andThen twoStrips (\<lambda>b. neoPixelSetColor exampleConstants b 9 (10, 20, 30) 1))
     = [7, 0]
   \<and> strips_of (andThen twoStrips (\<lambda>b. neoPixelSetColor exampleConstants b 9 (10, 20, 30) 1))
     = Inr [\<lparr>strip_pin = 3, strip_length = 5, strip_colors = None\<rparr>,
            \<lparr>strip_pin = 7, strip_length = 2, strip_colors = None\<rparr>,
            \<lparr>strip_pin = 9, strip_length = 3,
             strip_colors = Some [Undefined, Color (10, 20, 30), Undefined]\<rparr>]"
  by (simp add: twoStrips_def andThen_def neoPixelSetColor_def neoPixelConfigStrip_def
      sysexCommand_def log_def Let_def lastAddress_def setPixelAddress_def setPixelMessage_def
      js_and_mask js_shr_mod strips_of_def array_set_def exampleBoard_def exampleFirmata_def
      constructor_def numeral_3_eq_3)

text \<open>
  The two limits of the frame.  Behind a strip of 16384 LEDs the address 16384 is sent
  as 0: the frame has fourteen bits for it.  On a strip of no LED
  \<^verbatim>\<open>index % length\<close> is \<^verbatim>\<open>NaN\<close>, and the address is sent as 0 whatever stands
  before the strip.
\<close>

lemma neoPixelSetColor_large_address_example:
  "lastAddress (andThen (configureAll exampleConstants exampleBoard [(3, 16384), (7, 2)])
      (\<lambda>b. neoPixelSetColor exampleConstants b 7 (10, 20, 30) 0)) = [0, 0]"
  by (simp add: andThen_def neoPixelSetColor_def neoPixelConfigStrip_def sysexCommand_def log_def
      Let_def lastAddress_def setPixelAddress_def setPixelMessage_def js_and_mask js_shr_mod
      exampleBoard_def exampleFirmata_def constructor_def)

lemma neoPixelSetColor_zero_length_example:
  "lastAddress (andThen (configureAll exampleConstants exampleBoard [(3, 5), (7, 0)])
      (\<lambda>b. neoPixelSetColor exampleConstants b 7 (10, 20, 30) 0)) = [0, 0]"
  by (simp add: andThen_def neoPixelSetColor_def neoPixelConfigStrip_def sysexCommand_def log_def
      Let_def lastAddress_def setPixelAddress_def setPixelMessage_def js_and_def js_shr_def
      exampleBoard_def exampleFirmata_def constructor_def)

section \<open>Filling a strip\<close>

lemma fillLoop_all_None:
  assumes "\<forall>i < length newColors. newColors ! i = None"
  shows "fillLoop K b pin newColors indexes = Inr b"
  using assms by (induction indexes) simp_all

lemma update_first_const:
  "find P xs = Some s \<Longrightarrow> update_first P g xs = update_first P (\<lambda>x. g s) xs"
  by (induction xs) (simp_all split: if_splits)

lemma update_first_same:
  "find P xs = Some s \<Longrightarrow> update_first P (\<lambda>x. s) xs = xs"
  by (induction xs) (simp_all split: if_splits)

lemma resizeColors_fits: "length cs = len \<Longrightarrow> resizeColors cs len = cs"
  by (simp add: resizeColors_def)

lemma fill_null:
  assumes "\<forall>c i cs. colorMapFn c i cs = None"
  shows "neoPixelFillColor K b pin colorMapFn
     = Inr (b\<lparr>neoPixel := update_first (\<lambda>aStrip. strip_pin aStrip = pin) resizeStrip (neoPixel b)\<rparr>)"
proof -
  have n: "fillLoop K b1 pin (map (\<lambda>(index, c). colorMapFn c index oldColors) xs) indexes = Inr b1"
    for b1 oldColors xs indexes
    using assms by (intro fillLoop_all_None) (simp add: case_prod_beta)
  show ?thesis
  proof (cases "find (\<lambda>aStrip. strip_pin aStrip = pin) (neoPixel b)")
    case None
    then show ?thesis
      by (simp add: neoPixelFillColor_def Let_def n update_first_find_None)
  next
    case (Some s)
    show ?thesis
    proof (cases "strip_colors s")
      case None
      then have "resizeStrip s = s"
        by (simp add: resizeStrip_def)
      then have "update_first (\<lambda>aStrip. strip_pin aStrip = pin) resizeStrip (neoPixel b) = neoPixel b"
        using update_first_const[OF Some, of resizeStrip] update_first_same[OF Some] by simp
      then show ?thesis
        using Some None by (simp add: neoPixelFillColor_def Let_def n)
    next
      case (Some cs)
      have "update_first (\<lambda>aStrip. strip_pin aStrip = pin) resizeStrip (neoPixel b)
          = update_first (\<lambda>aStrip. strip_pin aStrip = pin)
              (\<lambda>aStrip. aStrip\<lparr>strip_colors := Some (resizeColors cs (strip_length s))\<rparr>) (neoPixel b)"
        using update_first_const[OF \<open>find _ _ = Some s\<close>, of resizeStrip]
          update_first_const[OF \<open>find _ _ = Some s\<close>,
            of "\<lambda>aStrip. aStrip\<lparr>strip_colors := Some (resizeColors cs (strip_length s))\<rparr>"]
          Some
        by (simp add: resizeStrip_def)
      then show ?thesis
        using \<open>find _ _ = Some s\<close> Some by (simp add: neoPixelFillColor_def Let_def n)
    qed
  qed
qed

text \<open>What the write of \<^verbatim>\<open>null\<close> and the \<^verbatim>\<open>splice\<close> make of a buffer.\<close>

lemma resizeColors_eq:
  "resizeColors cs len =
     (if len < length cs then take len cs
      else if length cs < len then cs @ replicate (len - length cs - 1) Undefined @ [Null]
      else cs)"
proof -
  have "array_set cs (int len - 1) Null = cs @ replicate (len - length cs - 1) Undefined @ [Null]"
    if "length cs < len"
  proof -
    have "nat (int len - 1) = len - 1" "\<not> int len - 1 < 0" "\<not> len - 1 < length cs"
      using that by simp_all
    then show ?thesis
      by (simp add: array_set_def diff_commute)
  qed
  then show ?thesis
    by (simp add: resizeColors_def Let_def)
qed

lemma resizeColors_length: "length (resizeColors cs len) = len"
  by (simp add: resizeColors_eq)

lemma update_first_split:
  "find P xs = Some s \<Longrightarrow>
   update_first P g xs = takeWhile (\<lambda>x. \<not> P x) xs @ g s # tl (dropWhile (\<lambda>x. \<not> P x) xs)"
  by (induction xs) (simp_all split: if_splits)

lemma find_split:
  "find P xs = Some s \<Longrightarrow> xs = takeWhile (\<lambda>x. \<not> P x) xs @ s # tl (dropWhile (\<lambda>x. \<not> P x) xs)"
  by (induction xs) (simp_all split: if_splits)

text \<open>
  Claim C9, as the code has it.  With a map function that returns \<^verbatim>\<open>null\<close> for
  every slot, \<^verbatim>\<open>neoPixelFillColor\<close> succeeds and sends nothing; the pin table, the
  pins and the lengths of the strips stay as they are.  Where the pin has no strip, or
  its strip has no color buffer, the board is unchanged.  Where the strip has a buffer,
  only that strip changes: a buffer longer than the strip is cut to the length of the
  strip, a shorter one is grown to it with empty slots and a final \<^verbatim>\<open>null\<close>, and
  a buffer of the length of the strip is left as it is, and the board with it.
\<close>

theorem neoPixelFillColor_null_map:
  assumes "\<forall>c i cs. colorMapFn c i cs = None"
  shows "\<exists>b'. neoPixelFillColor K b pin colorMapFn = Inr b'
          \<and> effects b' = effects b
          \<and> firmata b' = firmata b
          \<and> map strip_pin (neoPixel b') = map strip_pin (neoPixel b)
          \<and> map strip_length (neoPixel b') = map strip_length (neoPixel b)
          \<and> (case find (\<lambda>aStrip. strip_pin aStrip = pin) (neoPixel b) of
                None \<Rightarrow> b' = b
              | Some s \<Rightarrow>
                  (case strip_colors s of
                     None \<Rightarrow> b' = b
                   | Some cs \<Rightarrow>
                       b' = b\<lparr>neoPixel :=
                           takeWhile (\<lambda>aStrip. strip_pin aStrip \<noteq> pin) (neoPixel b)
                           @ s\<lparr>strip_colors := Some
                                 (if strip_length s < length cs then take (strip_length s) cs
                                  else if length cs < strip_length s
                                  then cs @ replicate (strip_length s - length cs - 1) Undefined
                                          @ [Null]
                                  else cs)\<rparr>
                           # tl (dropWhile (\<lambda>aStrip. strip_pin aStrip \<noteq> pin) (neoPixel b))\<rparr>
                       \<and> (length cs = strip_length s \<longrightarrow> b' = b)))"
proof -
  define b' where "b' = b\<lparr>neoPixel :=
      update_first (\<lambda>aStrip. strip_pin aStrip = pin) resizeStrip (neoPixel b)\<rparr>"
  have r: "neoPixelFillColor K b pin colorMapFn = Inr b'"
    using fill_null[OF assms, of K b pin] by (simp add: b'_def)
  have e: "effects b' = effects b" "firmata b' = firmata b"
    by (simp_all add: b'_def)
  show ?thesis
  proof (cases "find (\<lambda>aStrip. strip_pin aStrip = pin) (neoPixel b)")
    case None
    then have "b' = b"
      by (simp add: b'_def update_first_find_None)
    then show ?thesis
      using r None by simp
  next
    case (Some s)
    define T where "T = takeWhile (\<lambda>aStrip. strip_pin aStrip \<noteq> pin) (neoPixel b)"
    define D where "D = tl (dropWhile (\<lambda>aStrip. strip_pin aStrip \<noteq> pin) (neoPixel b))"
    have sp: "neoPixel b = T @ s # D"
      using find_split[OF Some] by (simp add: T_def D_def)
    have n: "neoPixel b' = T @ resizeStrip s # D"
      using update_first_split[OF Some, of resizeStrip] by (simp add: b'_def T_def D_def)
    have m: "map strip_pin (neoPixel b') = map strip_pin (neoPixel b)"
      "map strip_length (neoPixel b') = map strip_length (neoPixel b)"
      by (simp_all add: n sp resizeStrip_def)
    show ?thesis
    proof (cases "strip_colors s")
      case None
      then have "resizeStrip s = s"
        by (simp add: resizeStrip_def)
      then have "neoPixel b' = neoPixel b"
        using n sp by simp
      then have "b' = b"
        by (simp add: b'_def)
      then show ?thesis
        using r Some None by simp
    next
      case (Some cs)
      have rs: "resizeStrip s = s\<lparr>strip_colors := Some
          (if strip_length s < length cs then take (strip_length s) cs
           else if length cs < strip_length s
           then cs @ replicate (strip_length s - length cs - 1) Undefined @ [Null]
           else cs)\<rparr>"
        using Some by (simp add: resizeStrip_def resizeColors_eq)
      have same: "length cs = strip_length s \<longrightarrow> b' = b"
      proof
        assume that: "length cs = strip_length s"
        have "resizeStrip s = s"
          using that Some by (simp add: rs)
        then have "neoPixel b' = neoPixel b"
          using n sp by simp
        then show "b' = b"
          by (simp add: b'_def)
      qed
      have "update_first (\<lambda>aStrip. strip_pin aStrip = pin) resizeStrip (neoPixel b)
          = T @ resizeStrip s # D"
        using update_first_split[OF \<open>find _ _ = Some s\<close>, of resizeStrip]
        by (simp add: T_def D_def)
      then have full: "b' = b\<lparr>neoPixel :=
          takeWhile (\<lambda>aStrip. strip_pin aStrip \<noteq> pin) (neoPixel b)
          @ s\<lparr>strip_colors := Some
                (if strip_length s < length cs then take (strip_length s) cs
                 else if length cs < strip_length s
                 then cs @ replicate (strip_length s - length cs - 1) Undefined @ [Null]
                 else cs)\<rparr>
          # tl (dropWhile (\<lambda>aStrip. strip_pin aStrip \<noteq> pin) (neoPixel b))\<rparr>"
        unfolding b'_def T_def D_def rs by (rule arg_cong)
      show ?thesis
        apply (rule exI[of _ b'])
        apply (simp only: \<open>find _ _ = Some s\<close> Some option.case)
        using r e m full same by blast
    qed
  qed
qed

lemma regrown_eval:
  "\<exists>b. regrown = Inr b
     \<and> neoPixel b = [\<lparr>strip_pin = 3, strip_length = 4,
                      strip_colors = Some [Color (10, 20, 30), Undefined]\<rparr>]"
  by (simp add: regrown_def andThen_def neoPixelSetColor_def neoPixelConfigStrip_def
      sysexCommand_def log_def Let_def array_set_def exampleBoard_def exampleFirmata_def
      constructor_def numeral_2_eq_2)

theorem neoPixelFillColor_null_map_witness:
  "strips_of (andThen regrown (\<lambda>b. neoPixelFillColor exampleConstants b 3 (\<lambda>c i cs. None)))
     = Inr [\<lparr>strip_pin = 3, strip_length = 4,
             strip_colors = Some [Color (10, 20, 30), Undefined, Undefined, Null]\<rparr>]"
proof -
  obtain b where b: "regrown = Inr b"
    "neoPixel b = [\<lparr>strip_pin = 3, strip_length = 4,
                    strip_colors = Some [Color (10, 20, 30), Undefined]\<rparr>]"
    using regrown_eval by blast
  obtain b' where b': "neoPixelFillColor exampleConstants b 3 (\<lambda>c i cs. None) = Inr b'"
    "neoPixel b' = [\<lparr>strip_pin = 3, strip_length = 4,
                     strip_colors = Some [Color (10, 20, 30), Undefined, Undefined, Null]\<rparr>]"
    using neoPixelFillColor_null_map[of "\<lambda>c i cs. None" exampleConstants b 3]
    by (auto simp add: b(2))
  show ?thesis
    by (simp add: b(1) b' andThen_def strips_of_def)
qed

text \<open>
  The claim has the buffer unchanged for every strip.  A strip of two LEDs whose
  buffer holds a color at index 2 loses that color: the buffer is cut to two slots.
\<close>

theorem neoPixelFillColor_truncates_counterexample:
  "strips_of overfilled
     = Inr [\<lparr>strip_pin = 3, strip_length = 2,
             strip_colors = Some [Undefined, Undefined, Color (10, 20, 30)]\<rparr>]
   \<and> strips_of (andThen overfilled (\<lambda>b. neoPixelFillColor exampleConstants b 3 (\<lambda>c i cs. None)))
     = Inr [\<lparr>strip_pin = 3, strip_length = 2, strip_colors = Some [Undefined, Undefined]\<rparr>]"
proof -
  have o: "\<exists>b. overfilled = Inr b
      \<and> neoPixel b = [\<lparr>strip_pin = 3, strip_length = 2,
             strip_colors = Some [Undefined, Undefined, Color (10, 20, 30)]\<rparr>]"
    by (simp add: overfilled_def andThen_def neoPixelSetColor_def neoPixelConfigStrip_def
        sysexCommand_def log_def Let_def array_set_def exampleBoard_def exampleFirmata_def
        constructor_def numeral_2_eq_2)
  then obtain b where b: "overfilled = Inr b"
    "neoPixel b = [\<lparr>strip_pin = 3, strip_length = 2,
             strip_colors = Some [Undefined, Undefined, Color (10, 20, 30)]\<rparr>]"
    by blast
  have "neoPixelFillColor exampleConstants b 3 (\<lambda>c i cs. None)
      = Inr (b\<lparr>neoPixel := update_first (\<lambda>aStrip. strip_pin aStrip = 3) resizeStrip (neoPixel b)\<rparr>)"
    by (rule fill_null) simp
  then show ?thesis
    by (simp add: b andThen_def strips_of_def resizeStrip_def resizeColors_def numeral_2_eq_2)
qed

section \<open>Queries and their timeouts\<close>

lemma keeps_refl: "keeps qid b b"
  by (simp add: keeps_def)

lemma keeps_trans: "keeps qid a b \<Longrightarrow> keeps qid b c \<Longrightarrow> keeps qid a c"
  unfolding keeps_def by (metis le_trans)

lemma listeners_removeAll:
  "set (board_listeners (removeAllListeners ev b)) \<subseteq> set (board_listeners b)"
  by (cases "firmata b") (auto simp add: board_listeners_def removeAllListeners_def)

lemma queries_removeAll [simp]: "queries (removeAllListeners ev b) = queries b"
  by (simp add: removeAllListeners_def)

lemma keeps_settle_result:
  assumes "q \<noteq> qid"
  shows "keeps qid b (settle_result q outcome b)"
proof (cases "q < length (queries b) \<and> q_result (queries b ! q) = Pending")
  case False
  then show ?thesis
    by (auto simp add: settle_result_def keeps_refl)
next
  case True
  show ?thesis
  proof (cases outcome)
    case (Rejected r)
    then show ?thesis
      using True assms listeners_removeAll[of "q_event (queries b ! q)" b]
      by (auto simp add: settle_result_def keeps_def Let_def board_listeners_def)
  qed (use True assms in \<open>auto simp add: settle_result_def keeps_def Let_def board_listeners_def\<close>)
qed

lemma keeps_settle_request:
  assumes "q \<noteq> qid"
  shows "keeps qid b (settle_request q outcome b)"
proof (cases "q < length (queries b) \<and> q_request (queries b ! q) = Pending")
  case False
  then show ?thesis
    by (auto simp add: settle_request_def keeps_refl)
next
  case True
  define b1 where "b1 = b\<lparr>queries := (queries b)[q := (queries b ! q)\<lparr>q_request := outcome\<rparr>]\<rparr>"
  have "keeps qid b b1"
    using assms by (simp add: keeps_def b1_def board_listeners_def)
  moreover have "keeps qid b1 (settle_result q outcome b1)"
    using assms by (rule keeps_settle_result)
  ultimately show ?thesis
    using True keeps_trans by (simp add: settle_request_def b1_def)
qed

lemma keeps_run_listener:
  assumes "listener_id l \<noteq> qid"
  shows "keeps qid b (run_listener l data b)"
proof (cases l)
  case (OnBoardVersion q)
  define b1 where "b1 = b\<lparr>version := Some (decodeVersion data)\<rparr>"
  have "keeps qid b b1"
    by (simp add: keeps_def b1_def board_listeners_def)
  moreover have "keeps qid b1 (settle_request q (Resolved (VersionString (decodeVersion data))) b1)"
    using assms OnBoardVersion by (intro keeps_settle_request) simp
  ultimately show ?thesis
    using keeps_trans OnBoardVersion by (simp add: b1_def Let_def)
next
  case (OnSensor q)
  then show ?thesis
    using assms by (simp add: keeps_settle_request)
qed

lemma keeps_fold_listeners:
  assumes "\<forall>l \<in> set ls. listener_id l \<noteq> qid"
  shows "keeps qid b (fold (\<lambda>l. run_listener l data) ls b)"
  using assms
proof (induction ls arbitrary: b)
  case Nil
  then show ?case
    by (simp add: keeps_refl)
next
  case (Cons l ls)
  have "keeps qid b (run_listener l data b)"
    using Cons.prems by (simp add: keeps_run_listener)
  moreover have "keeps qid (run_listener l data b) (fold (\<lambda>l. run_listener l data) ls (run_listener l data b))"
    using Cons.prems by (intro Cons.IH) simp
  ultimately show ?case
    using keeps_trans by simp
qed

lemma keeps_emit:
  assumes "\<forall>el \<in> set (board_listeners b). fst el = ev \<longrightarrow> listener_id (snd el) \<noteq> qid"
  shows "keeps qid b (emit ev data b)"
proof (cases "firmata b")
  case None
  then show ?thesis
    by (simp add: emit_def keeps_refl)
next
  case (Some f)
  define b1 where "b1 = b\<lparr>firmata := Some (f\<lparr>listeners := filter (\<lambda>el. fst el \<noteq> ev) (listeners f)\<rparr>)\<rparr>"
  define ls where "ls = map snd (filter (\<lambda>el. fst el = ev) (listeners f))"
  have "keeps qid b b1"
    using Some by (auto simp add: keeps_def b1_def board_listeners_def)
  moreover have "\<forall>l \<in> set ls. listener_id l \<noteq> qid"
    using assms Some by (auto simp add: ls_def board_listeners_def)
  then have "keeps qid b1 (fold (\<lambda>l. run_listener l data) ls b1)"
    by (rule keeps_fold_listeners)
  ultimately show ?thesis
    using keeps_trans Some by (simp add: emit_def Let_def b1_def ls_def)
qed

lemma keeps_timeout_other:
  assumes "q \<noteq> qid"
  shows "keeps qid b (timeout_fires q b)"
  using assms by (simp add: timeout_fires_def keeps_settle_result keeps_refl)

lemma keeps_new_query:
  assumes "qid < length (queries b)" "listener_id l = length (queries b)"
  shows "keeps qid b (new_query ev t l message b)"
  using assms
  by (cases "firmata b")
    (auto simp add: keeps_def new_query_def once_def log_def board_listeners_def nth_append)

lemma keeps_pinMode: "keeps qid b (firmata_pinMode pin m b)"
  by (cases "firmata b") (auto simp add: keeps_def firmata_pinMode_def log_def board_listeners_def)

lemma queries_pinMode [simp]: "queries (firmata_pinMode pin m b) = queries b"
  by (simp add: firmata_pinMode_def log_def)

lemma keeps_call:
  assumes "qid < length (queries b)"
  shows "keeps qid b (snd (call operation b))"
proof (cases operation)
  case (BoardVersion timeout)
  then show ?thesis
    using assms
    by (auto simp add: boardVersion_def keeps_refl keeps_new_query Let_def split: option.splits)
next
  case (GetDistanceByUltrasonic pin timeout)
  show ?thesis
  proof (cases "firmata b")
    case None
    then show ?thesis
      using GetDistanceByUltrasonic by (simp add: getDistanceByUltrasonic_def keeps_refl)
  next
    case (Some f)
    show ?thesis
    proof (cases "length (pins f) \<le> pin")
      case True
      then show ?thesis
        using GetDistanceByUltrasonic Some by (simp add: getDistanceByUltrasonic_def keeps_refl)
    next
      case False
      define b1 where "b1 = firmata_pinMode pin (PING_READ (MODES f)) b"
      have "keeps qid b b1"
        by (simp add: b1_def keeps_pinMode)
      moreover have "keeps qid b1 (new_query (UltrasonicDistanceReply pin)
          (timeout_or timeout (ultrasonicDistanceWaitingTime b)) (OnSensor (length (queries b1)))
          [ULTRASONIC_DISTANCE_QUERY, int pin] b1)"
        using assms by (intro keeps_new_query) (simp_all add: b1_def)
      ultimately show ?thesis
        using keeps_trans GetDistanceByUltrasonic Some False
        by (simp add: getDistanceByUltrasonic_def Let_def b1_def)
    qed
  qed
next
  case (GetWaterTemp pin timeout)
  then show ?thesis
    using assms
    by (auto simp add: getWaterTemp_def keeps_refl keeps_new_query Let_def split: option.splits)
qed

lemma pending_keeps:
  "pending_query qid ev d b \<Longrightarrow> keeps qid b b' \<Longrightarrow> pending_query qid ev d b'"
  unfolding pending_query_def keeps_def by fastforce

lemma timed_out_keeps:
  "timed_out_query qid ev d b \<Longrightarrow> keeps qid b b' \<Longrightarrow> timed_out_query qid ev d b'"
  unfolding timed_out_query_def keeps_def by fastforce

lemma pending_step:
  assumes "pending_query qid ev d b" "\<not> is_response_to ev s" "s \<noteq> TimerFires qid"
  shows "pending_query qid ev d (do_step s b)"
proof -
  have "keeps qid b (do_step s b)"
  proof (cases s)
    case (Response e data)
    then have "e \<noteq> ev"
      using assms(2) by (simp add: is_response_to_def)
    then have "\<forall>el \<in> set (board_listeners b). fst el = e \<longrightarrow> listener_id (snd el) \<noteq> qid"
      using assms(1) by (auto simp add: pending_query_def)
    then show ?thesis
      using Response by (simp add: keeps_emit)
  next
    case (TimerFires q)
    then show ?thesis
      using assms(3) by (simp add: keeps_timeout_other)
  next
    case (Call operation)
    then show ?thesis
      using assms(1) by (simp add: keeps_call pending_query_def)
  qed
  then show ?thesis
    using assms(1) pending_keeps by blast
qed

lemma pending_run:
  assumes "pending_query qid ev d b"
    and "\<forall>s \<in> set steps. \<not> is_response_to ev s \<and> s \<noteq> TimerFires qid"
  shows "pending_query qid ev d (run steps b)"
  using assms
proof (induction steps arbitrary: b)
  case Nil
  then show ?case
    by (simp add: run_def)
next
  case (Cons s steps)
  have "pending_query qid ev d (do_step s b)"
    using Cons.prems by (intro pending_step) simp_all
  then have "pending_query qid ev d (run steps (do_step s b))"
    using Cons.prems by (intro Cons.IH) simp_all
  then show ?case
    by (simp add: run_def)
qed

lemma timed_out_step:
  assumes "timed_out_query qid ev d b"
  shows "timed_out_query qid ev d (do_step s b)"
proof -
  have "keeps qid b (do_step s b)"
  proof (cases s)
    case (Response e data)
    have "\<forall>el \<in> set (board_listeners b). fst el = e \<longrightarrow> listener_id (snd el) \<noteq> qid"
      using assms by (simp add: timed_out_query_def)
    then show ?thesis
      using Response by (simp add: keeps_emit)
  next
    case (TimerFires q)
    show ?thesis
    proof (cases "q = qid")
      case True
      then have "timeout_fires q b = b"
        using assms by (simp add: timeout_fires_def settle_result_def timed_out_query_def)
      then show ?thesis
        using TimerFires by (simp add: keeps_refl)
    next
      case False
      then show ?thesis
        using TimerFires by (simp add: keeps_timeout_other)
    qed
  next
    case (Call operation)
    then show ?thesis
      using assms by (simp add: keeps_call timed_out_query_def)
  qed
  then show ?thesis
    using assms timed_out_keeps by blast
qed

lemma timed_out_run:
  assumes "timed_out_query qid ev d b"
  shows "timed_out_query qid ev d (run steps b)"
  using assms
proof (induction steps arbitrary: b)
  case Nil
  then show ?case
    by (simp add: run_def)
next
  case (Cons s steps)
  have "timed_out_query qid ev d (run steps (do_step s b))"
    using Cons.prems by (intro Cons.IH timed_out_step)
  then show ?case
    by (simp add: run_def)
qed

lemma pending_new_query:
  assumes "listeners_known b" "firmata b = Some f" "listener_id l = length (queries b)"
  shows "pending_query (length (queries b)) ev t (new_query ev t l message b)"
proof -
  have "\<forall>el \<in> set (listeners f). listener_id (snd el) \<noteq> length (queries b)"
    using assms(1,2) by (auto simp add: listeners_known_def board_listeners_def list_all_iff)
  then show ?thesis
    using assms(2,3)
    by (auto simp add: pending_query_def new_query_def once_def log_def board_listeners_def)
qed

lemma listeners_known_pinMode:
  "listeners_known b \<Longrightarrow> listeners_known (firmata_pinMode pin m b)"
  by (cases "firmata b")
    (simp_all add: listeners_known_def board_listeners_def firmata_pinMode_def log_def)

lemma pending_call:
  assumes "listeners_known b" "call operation b = (Query qid, b1)"
  shows "pending_query qid (event_of operation) (delay_of operation b) b1"
proof (cases operation)
  case (BoardVersion timeout)
  then obtain f where f: "firmata b = Some f" "version b = None"
    using assms(2) by (auto simp add: boardVersion_def split: option.splits)
  then show ?thesis
    using assms BoardVersion pending_new_query[OF assms(1) f(1), of "OnBoardVersion (length (queries b))"]
    by (auto simp add: boardVersion_def Let_def)
next
  case (GetDistanceByUltrasonic pin timeout)
  then obtain f where f: "firmata b = Some f" "\<not> length (pins f) \<le> pin"
    using assms(2) by (auto simp add: getDistanceByUltrasonic_def split: option.splits if_splits)
  define b0 where "b0 = firmata_pinMode pin (PING_READ (MODES f)) b"
  have k: "listeners_known b0"
    using assms(1) by (simp add: b0_def listeners_known_pinMode)
  obtain f0 where f0: "firmata b0 = Some f0"
    using f(1) by (simp add: b0_def firmata_pinMode_def log_def)
  have "pending_query (length (queries b0)) (UltrasonicDistanceReply pin)
      (timeout_or timeout (ultrasonicDistanceWaitingTime b))
      (new_query (UltrasonicDistanceReply pin) (timeout_or timeout (ultrasonicDistanceWaitingTime b))
         (OnSensor (length (queries b0))) [ULTRASONIC_DISTANCE_QUERY, int pin] b0)"
    using pending_new_query[OF k f0] by simp
  then show ?thesis
    using assms(2) GetDistanceByUltrasonic f
    by (auto simp add: getDistanceByUltrasonic_def Let_def b0_def)
next
  case (GetWaterTemp pin timeout)
  then obtain f where f: "firmata b = Some f"
    using assms(2) by (auto simp add: getWaterTemp_def split: option.splits)
  then show ?thesis
    using assms GetWaterTemp pending_new_query[OF assms(1) f, of "OnSensor (length (queries b))"]
    by (auto simp add: getWaterTemp_def Let_def)
qed

lemma timeout_of_pending:
  assumes "pending_query qid ev d b"
  shows "timed_out_query qid ev d (timeout_fires qid b)
       \<and> (\<forall>el \<in> set (board_listeners (timeout_fires qid b)). fst el \<noteq> ev)"
proof (cases "firmata b")
  case None
  then show ?thesis
    using assms
    by (auto simp add: pending_query_def timed_out_query_def timeout_fires_def settle_result_def
        removeAllListeners_def board_listeners_def Let_def)
next
  case (Some f)
  then show ?thesis
    using assms
    by (auto simp add: pending_query_def timed_out_query_def timeout_fires_def settle_result_def
        removeAllListeners_def board_listeners_def Let_def)
qed

lemma emit_without_listener:
  assumes "\<forall>el \<in> set (board_listeners b). fst el \<noteq> ev"
  shows "emit ev data b = b"
proof (cases "firmata b")
  case None
  then show ?thesis
    by (simp add: emit_def)
next
  case (Some f)
  have a: "\<forall>el \<in> set (listeners f). fst el \<noteq> ev"
    using assms Some by (simp add: board_listeners_def)
  then have "filter (\<lambda>el. fst el = ev) (listeners f) = []"
    by (simp add: filter_empty_conv)
  moreover have "filter (\<lambda>el. fst el \<noteq> ev) (listeners f) = listeners f"
    using a by (simp add: filter_id_conv)
  ultimately show ?thesis
    using Some by (simp add: emit_def Let_def)
qed

text \<open>
  On a board that is ready for it, each of the three operations makes a query: the
  command is sent, the query waits, and the listener is registered on the event.
\<close>

lemma call_makes_query:
  assumes "ready_for operation b"
  shows "\<exists>b1. call operation b = (Query (length (queries b)), b1)
          \<and> last (effects b1) = SysexCommand (command_of operation)
          \<and> queries b1 = queries b @ [\<lparr>q_event = event_of operation,
               q_delay = delay_of operation b, q_request = Pending, q_result = Pending\<rparr>]
          \<and> board_listeners b1
               = board_listeners b @ [(event_of operation, listener_of operation (length (queries b)))]"
proof (cases operation)
  case (BoardVersion timeout)
  then show ?thesis
    using assms
    by (auto simp add: boardVersion_def new_query_def once_def log_def Let_def
        board_listeners_def)
next
  case (GetDistanceByUltrasonic pin timeout)
  then show ?thesis
    using assms
    by (auto simp add: getDistanceByUltrasonic_def firmata_pinMode_def new_query_def once_def
        log_def Let_def board_listeners_def split: option.splits)
next
  case (GetWaterTemp pin timeout)
  then show ?thesis
    using assms
    by (auto simp add: getWaterTemp_def new_query_def once_def log_def Let_def
        board_listeners_def)
qed

text \<open>
  Claim C2.  One of the three query operations is called on a board that is ready for
  it and whose listeners all belong to queries made.  The call makes a query.  Then
  events follow, none of them a response on the event of the query, and the call has
  neither resolved nor failed; then the timer of the query fires.  At that point the
  call has failed with the timeout error that carries the delay, and no listener is
  left on the event: a response on the event changes nothing.  Whatever events follow
  (responses on any event, timers, further queries), the \<^verbatim>\<open>request\<close> promise of
  the query is never settled and the call stays failed with the timeout error.
\<close>

theorem query_timeout_is_final:
  assumes "listeners_known b" "ready_for operation b"
    and "\<forall>s \<in> set before. \<not> is_response_to (event_of operation) s
           \<and> s \<noteq> TimerFires (length (queries b))"
  shows "\<exists>b1. call operation b = (Query (length (queries b)), b1)
          \<and> q_result (queries (run before b1) ! length (queries b)) = Pending
          \<and> q_result (queries (timeout_fires (length (queries b)) (run before b1))
                ! length (queries b)) = Rejected (Timeout (delay_of operation b))
          \<and> (\<forall>el \<in> set (board_listeners (timeout_fires (length (queries b)) (run before b1))).
                fst el \<noteq> event_of operation)
          \<and> (\<forall>data. emit (event_of operation) data
                       (timeout_fires (length (queries b)) (run before b1))
                     = timeout_fires (length (queries b)) (run before b1))
          \<and> (\<forall>later.
                q_request (queries (run later (timeout_fires (length (queries b)) (run before b1)))
                  ! length (queries b)) = Pending
                \<and> q_result (queries (run later (timeout_fires (length (queries b)) (run before b1)))
                  ! length (queries b)) = Rejected (Timeout (delay_of operation b)))"
proof -
  define qid where "qid = length (queries b)"
  obtain b1 where c: "call operation b = (Query qid, b1)"
    using call_makes_query[OF assms(2)] by (auto simp add: qid_def)
  define b2 where "b2 = timeout_fires qid (run before b1)"
  have p: "pending_query qid (event_of operation) (delay_of operation b) (run before b1)"
    using pending_call[OF assms(1) c] assms(3) unfolding qid_def[symmetric] by (rule pending_run)
  then have t: "timed_out_query qid (event_of operation) (delay_of operation b) b2"
    and n: "\<forall>el \<in> set (board_listeners b2). fst el \<noteq> event_of operation"
    using timeout_of_pending by (auto simp add: b2_def)
  have l: "timed_out_query qid (event_of operation) (delay_of operation b) (run later b2)" for later
    using t by (rule timed_out_run)
  have "q_result (queries (run before b1) ! qid) = Pending"
    using p by (simp add: pending_query_def)
  moreover have "q_result (queries b2 ! qid) = Rejected (Timeout (delay_of operation b))"
    using t by (simp add: timed_out_query_def)
  moreover have "\<forall>data. emit (event_of operation) data b2 = b2"
    using emit_without_listener[OF n] by simp
  moreover have "\<forall>later. q_request (queries (run later b2) ! qid) = Pending
      \<and> q_result (queries (run later b2) ! qid) = Rejected (Timeout (delay_of operation b))"
    using l by (simp add: timed_out_query_def)
  ultimately show ?thesis
    using c n unfolding b2_def qid_def by blast
qed


lemma exampleBoard_eval:
  "listeners_known exampleBoard" "length (queries exampleBoard) = 0"
  "firmata exampleBoard = Some exampleFirmata" "version exampleBoard = None"
  "length (pins exampleFirmata) = 12"
  "boardVersionWaitingTime exampleBoard = 200"
  "ultrasonicDistanceWaitingTime exampleBoard = 1000"
  "getWaterTempWaitingTime exampleBoard = 2000"
  by (simp_all add: listeners_known_def board_listeners_def exampleBoard_def exampleFirmata_def
      constructor_def)

theorem query_timeout_is_final_witness:
  "q_result (queries (run [Response BoardVersionReply [0x41, 0x10]]
       (timeout_fires 0 (run otherEvents (snd (call (BoardVersion (Some 150)) exampleBoard))))) ! 0)
     = Rejected (Timeout 150)
   \<and> q_result (queries (run [Response (UltrasonicDistanceReply 6) [0x10, 0x00]]
       (timeout_fires 0 (run otherEvents (snd (call (GetDistanceByUltrasonic 6 None) exampleBoard))))) ! 0)
     = Rejected (Timeout 1000)
   \<and> q_result (queries (run [Response (WaterTempReply 6) [0x10, 0x00]]
       (timeout_fires 0 (run otherEvents (snd (call (GetWaterTemp 6 (Some 0)) exampleBoard))))) ! 0)
     = Rejected (Timeout 2000)"
proof -
  have a: "\<forall>s \<in> set otherEvents. \<not> is_response_to (event_of operation) s
      \<and> s \<noteq> TimerFires (length (queries exampleBoard))"
    if "operation \<in> {BoardVersion (Some 150), GetDistanceByUltrasonic 6 None, GetWaterTemp 6 (Some 0)}"
    for operation
    using that by (auto simp add: otherEvents_def is_response_to_def exampleBoard_eval)
  have g: "q_result (queries (run later
       (timeout_fires 0 (run otherEvents (snd (call operation exampleBoard))))) ! 0)
     = Rejected (Timeout (delay_of operation exampleBoard))"
    if "operation \<in> {BoardVersion (Some 150), GetDistanceByUltrasonic 6 None, GetWaterTemp 6 (Some 0)}"
    for operation later
  proof -
    have "ready_for operation exampleBoard"
      using that by (auto simp add: exampleBoard_eval)
    then show ?thesis
      using query_timeout_is_final[OF exampleBoard_eval(1) _ a[OF that]]
      by (auto simp add: exampleBoard_eval(2))
  qed
  show ?thesis
    using g[of "BoardVersion (Some 150)" "[Response BoardVersionReply [0x41, 0x10]]"]
      g[of "GetDistanceByUltrasonic 6 None" "[Response (UltrasonicDistanceReply 6) [0x10, 0x00]]"]
      g[of "GetWaterTemp 6 (Some 0)" "[Response (WaterTempReply 6) [0x10, 0x00]]"]
    by (simp add: timeout_or_def exampleBoard_eval del: call.simps)
qed

text \<open>
  The listener is there until then: a response that comes while the query waits
  settles the call with what the listener makes of it.
\<close>

lemma settle_request_pending:
  assumes "pending_query qid ev d b"
  shows "q_request (queries (settle_request qid outcome b) ! qid) = outcome
       \<and> q_result (queries (settle_request qid outcome b) ! qid) = outcome"
  using assms
  by (cases outcome)
    (auto simp add: pending_query_def settle_request_def settle_result_def Let_def
      removeAllListeners_def)

lemma run_listener_pending:
  assumes "pending_query qid (event_of operation) d b"
  shows "q_result (queries (run_listener (listener_of operation qid) data b) ! qid)
       = answer_of operation data"
proof (cases operation)
  case (BoardVersion timeout)
  have "pending_query qid (event_of operation) d (b\<lparr>version := Some (decodeVersion data)\<rparr>)"
    using assms by (simp add: pending_query_def board_listeners_def)
  then show ?thesis
    using BoardVersion settle_request_pending by (simp add: Let_def)
next
  case (GetDistanceByUltrasonic pin timeout)
  then show ?thesis
    using assms settle_request_pending by auto
next
  case (GetWaterTemp pin timeout)
  then show ?thesis
    using assms settle_request_pending by auto
qed

lemma response_settles_query:
  assumes "listeners_known b" "ready_for operation b"
  shows "\<exists>b1. call operation b = (Query (length (queries b)), b1)
          \<and> q_result (queries (emit (event_of operation) data b1) ! length (queries b))
              = answer_of operation data"
proof -
  define qid where "qid = length (queries b)"
  define ev where "ev = event_of operation"
  obtain b1 where c: "call operation b = (Query qid, b1)"
    and ls: "board_listeners b1 = board_listeners b @ [(ev, listener_of operation qid)]"
    using call_makes_query[OF assms(2)] by (auto simp add: qid_def ev_def)
  have p: "pending_query qid ev (delay_of operation b) b1"
    using pending_call[OF assms(1) c] by (simp add: ev_def)
  obtain f1 where f1: "firmata b1 = Some f1"
    using ls by (cases "firmata b1") (auto simp add: board_listeners_def)
  then have lf: "listeners f1 = board_listeners b @ [(ev, listener_of operation qid)]"
    using ls by (simp add: board_listeners_def)
  define b0 where "b0 = b1\<lparr>firmata := Some (f1\<lparr>listeners := filter (\<lambda>el. fst el \<noteq> ev) (listeners f1)\<rparr>)\<rparr>"
  define old where "old = map snd (filter (\<lambda>el. fst el = ev) (board_listeners b))"
  have e: "emit ev data b1
      = run_listener (listener_of operation qid) data (fold (\<lambda>l. run_listener l data) old b0)"
    by (simp add: emit_def f1 lf Let_def b0_def old_def)
  have "keeps qid b1 b0"
    using f1 by (auto simp add: keeps_def b0_def board_listeners_def)
  moreover have "\<forall>l \<in> set old. listener_id l \<noteq> qid"
    using assms(1) by (auto simp add: old_def listeners_known_def list_all_iff qid_def)
  then have "keeps qid b0 (fold (\<lambda>l. run_listener l data) old b0)"
    by (rule keeps_fold_listeners)
  ultimately have "pending_query qid (event_of operation) (delay_of operation b)
      (fold (\<lambda>l. run_listener l data) old b0)"
    using p pending_keeps unfolding ev_def by blast
  then have "q_result (queries (run_listener (listener_of operation qid) data
      (fold (\<lambda>l. run_listener l data) old b0)) ! qid) = answer_of operation data"
    by (rule run_listener_pending)
  then have "q_result (queries (emit ev data b1) ! qid) = answer_of operation data"
    by (simp only: e)
  then show ?thesis
    using c by (auto simp add: qid_def ev_def)
qed

lemma versionQuery_call: "call (BoardVersion (Some 200)) exampleBoard = (Query 0, versionQuery)"
  by (simp add: versionQuery_def boardVersion_def exampleBoard_def constructor_def Let_def)

text \<open>For comparison: a response that comes before the timer resolves the call, and the
  timer then changes nothing.\<close>

lemma response_before_timeout:
  "q_result (queries (run [Response BoardVersionReply [0x41, 0x10], TimerFires 0] versionQuery) ! 0)
     = Resolved (VersionString \<lparr>vtype = 2, major = 1, minor = 1\<rparr>)
   \<and> version (run [Response BoardVersionReply [0x41, 0x10], TimerFires 0] versionQuery)
     = Some \<lparr>vtype = 2, major = 1, minor = 1\<rparr>"
  by (simp add: versionQuery_def boardVersion_def exampleBoard_def constructor_def exampleFirmata_def
      Let_def run_def new_query_def once_def log_def emit_def settle_request_def settle_result_def
      timeout_fires_def timeout_or_def decodeVersion_def js_nth_def js_or_def js_shl_def js_shr_def
      js_and_def)

end
